theory Spec2Isabelle
  imports Complex_Main
begin

section \<open>The DEX reputation model and its stream runner\<close>

text \<open>
  A shallow embedding of \<^verbatim>\<open>app/models/dex_model.py\<close> (class \<^verbatim>\<open>DexModel\<close>) and of the
  consume loop of \<^verbatim>\<open>app/services/kafka_service.py\<close>.

  Conventions of the embedding.
  \<^item> Python floats are modelled by \<^typ>\<open>real\<close>: arithmetic is exact, there is no NaN and
    no infinity. Python integers that are lengths or counts are \<^typ>\<open>nat\<close>.
  \<^item> A key of an inbound JSON object is a \<open>jfield\<close>: missing, \<^verbatim>\<open>null\<close>, or a value, so
    that \<^verbatim>\<open>d.get(k)\<close> and \<^verbatim>\<open>d.get(k, default)\<close> are told apart.
  \<^item> An \<^verbatim>\<open>amountUSD\<close> is a number, or a value that \<^verbatim>\<open>float()\<close> rejects (it carries the
    text of the exception raised).
  \<^item> A transaction's timestamp is a number, as \<^verbatim>\<open>DexTransaction.timestamp\<close> of
    \<^verbatim>\<open>app/utils/types.py\<close> declares it.
  \<^item> Exceptions are values: a function that can raise returns \<open>pyexn + 'a\<close>.
  \<^item> The clock is an argument: \<^verbatim>\<open>datetime.now().timestamp()\<close> and \<^verbatim>\<open>time.time()\<close> are read
    from a record of clock readings.
  \<^item> A pandas column cell holding \<^verbatim>\<open>None\<close>/NaN is \<open>None\<close>; \<^verbatim>\<open>sum\<close>, \<^verbatim>\<open>nunique\<close> and
    \<^verbatim>\<open>dropna\<close> skip such cells, as pandas does by default. The display-only
    \<^verbatim>\<open>datetime\<close> column that \<^verbatim>\<open>preprocess_dex_transactions\<close> attaches is read by nothing
    and is left out of the row.
\<close>

subsection \<open>Inbound data\<close>

datatype 'a jfield = Absent | JNull | Present 'a

datatype amount = Num real | Bad string

datatype pyexn = ValueError string | ZeroDivisionError

fun exn_str :: "pyexn \<Rightarrow> string" where
  "exn_str (ValueError s) = s"
| "exn_str ZeroDivisionError = ''float division by zero''"

record TokenAmount =
  amountUSD :: "amount jfield"
  symbol :: "string jfield"

record DexTransaction =
  tx_document_id :: "string jfield"
  tx_action :: "string jfield"
  tx_timestamp :: real
  tx_protocol :: "string jfield"
  tx_poolId :: "string jfield"
  tx_poolName :: "string jfield"
  tx_tokenIn :: "TokenAmount jfield"
  tx_tokenOut :: "TokenAmount jfield"
  tx_token0 :: "TokenAmount jfield"
  tx_token1 :: "TokenAmount jfield"

record ProtocolData =
  protocolType :: string
  transactions :: "DexTransaction list"

record WalletMessage =
  msg_wallet_address :: "string jfield"
  msg_data :: "ProtocolData list"

text \<open>\<^verbatim>\<open>d.get(k)\<close> and \<^verbatim>\<open>d.get(k, default)\<close>: a missing key gives \<^verbatim>\<open>None\<close> or the default,
  a key holding \<^verbatim>\<open>null\<close> gives \<^verbatim>\<open>None\<close> in both.\<close>

fun get :: "'a jfield \<Rightarrow> 'a option" where
  "get Absent = None"
| "get JNull = None"
| "get (Present v) = Some v"

fun get_default :: "'a jfield \<Rightarrow> 'a \<Rightarrow> 'a option" where
  "get_default Absent d = Some d"
| "get_default JNull d = None"
| "get_default (Present v) d = Some v"

text \<open>\<^verbatim>\<open>tx.get("tokenIn", {}) or {}\<close>: a missing or null sub-object is the empty one.\<close>

definition empty_token :: TokenAmount where
  "empty_token = \<lparr>amountUSD = Absent, symbol = Absent\<rparr>"

fun token_or_empty :: "TokenAmount jfield \<Rightarrow> TokenAmount" where
  "token_or_empty (Present t) = t"
| "token_or_empty _ = empty_token"

text \<open>\<^verbatim>\<open>float(tok.get("amountUSD", 0.0) or 0.0)\<close>.\<close>

fun float_amount :: "TokenAmount \<Rightarrow> pyexn + real" where
  "float_amount t =
     (case amountUSD t of
        Absent \<Rightarrow> Inr 0
      | JNull \<Rightarrow> Inr 0
      | Present (Num x) \<Rightarrow> Inr x
      | Present (Bad s) \<Rightarrow> Inl (ValueError s))"

subsection \<open>Preprocessing\<close>

record row =
  wallet_address :: "string option"
  document_id :: "string option"
  action :: "string option"
  timestamp :: real
  protocol :: "string option"
  pool_id :: "string option"
  pool_name :: "string option"
  amount_usd :: "real option"
  token_in_symbol :: "string option"
  token_out_symbol :: "string option"
  token0_symbol :: "string option"
  token1_symbol :: "string option"

definition base_row :: "string option \<Rightarrow> DexTransaction \<Rightarrow> row" where
  "base_row wa tx =
     \<lparr>wallet_address = wa,
      document_id = get (tx_document_id tx),
      action = get (tx_action tx),
      timestamp = tx_timestamp tx,
      protocol = get_default (tx_protocol tx) '''',
      pool_id = get_default (tx_poolId tx) '''',
      pool_name = get_default (tx_poolName tx) '''',
      amount_usd = None,
      token_in_symbol = None,
      token_out_symbol = None,
      token0_symbol = None,
      token1_symbol = None\<rparr>"

definition make_row :: "string option \<Rightarrow> DexTransaction \<Rightarrow> pyexn + row" where
  "make_row wa tx =
     (let r = base_row wa tx; a = get (tx_action tx) in
      if a = Some ''swap'' then
        (let token_in = token_or_empty (tx_tokenIn tx);
             token_out = token_or_empty (tx_tokenOut tx) in
         case float_amount token_in of
           Inl e \<Rightarrow> Inl e
         | Inr x \<Rightarrow>
            (case float_amount token_out of
               Inl e \<Rightarrow> Inl e
             | Inr y \<Rightarrow>
                Inr (r\<lparr>amount_usd := Some (max x y),
                       token_in_symbol := get_default (symbol token_in) '''',
                       token_out_symbol := get_default (symbol token_out) ''''\<rparr>)))
      else if a = Some ''deposit'' \<or> a = Some ''withdraw'' then
        (let token0 = token_or_empty (tx_token0 tx);
             token1 = token_or_empty (tx_token1 tx) in
         case float_amount token0 of
           Inl e \<Rightarrow> Inl e
         | Inr x \<Rightarrow>
            (case float_amount token1 of
               Inl e \<Rightarrow> Inl e
             | Inr y \<Rightarrow>
                Inr (r\<lparr>amount_usd := Some (x + y),
                       token0_symbol := get_default (symbol token0) '''',
                       token1_symbol := get_default (symbol token1) ''''\<rparr>)))
      else Inr r)"

text \<open>The inner loop over one group's transactions, appending to \<^verbatim>\<open>rows\<close>.\<close>

fun rows_of_transactions ::
  "string option \<Rightarrow> DexTransaction list \<Rightarrow> row list \<Rightarrow> pyexn + row list" where
  "rows_of_transactions wa [] rows = Inr rows"
| "rows_of_transactions wa (tx # txs) rows =
     (case make_row wa tx of
        Inl e \<Rightarrow> Inl e
      | Inr r \<Rightarrow> rows_of_transactions wa txs (rows @ [r]))"

text \<open>The outer loop over \<^verbatim>\<open>wallet_data.get("data", [])\<close>; a group that is not tagged
  \<^verbatim>\<open>"dexes"\<close> is skipped.\<close>

fun rows_of_groups ::
  "string option \<Rightarrow> ProtocolData list \<Rightarrow> row list \<Rightarrow> pyexn + row list" where
  "rows_of_groups wa [] rows = Inr rows"
| "rows_of_groups wa (g # gs) rows =
     (if protocolType g \<noteq> ''dexes'' then rows_of_groups wa gs rows
      else case rows_of_transactions wa (transactions g) rows of
             Inl e \<Rightarrow> Inl e
           | Inr rows' \<Rightarrow> rows_of_groups wa gs rows')"

definition preprocess_dex_transactions :: "WalletMessage \<Rightarrow> pyexn + row list" where
  "preprocess_dex_transactions wallet_data =
     rows_of_groups (get (msg_wallet_address wallet_data)) (msg_data wallet_data) []"

subsection \<open>LP features and score\<close>

text \<open>\<^verbatim>\<open>df[df["action"] == a]\<close>, a column sum that skips missing cells, and
  \<^verbatim>\<open>nunique()\<close>, which does not count missing cells.\<close>

definition with_action :: "string \<Rightarrow> row list \<Rightarrow> row list" where
  "with_action a df = filter (\<lambda>r. action r = Some a) df"

definition sum_amount_usd :: "row list \<Rightarrow> real" where
  "sum_amount_usd df = sum_list (List.map_filter amount_usd df)"

definition nunique_pool_id :: "row list \<Rightarrow> nat" where
  "nunique_pool_id df = length (remdups (List.map_filter pool_id df))"

definition mean :: "real list \<Rightarrow> real" where
  "mean xs = sum_list xs / real (length xs)"

definition holding_time_days :: "real \<Rightarrow> row list \<Rightarrow> row \<Rightarrow> real" where
  "holding_time_days current_time withdraws deposit =
     (let deposit_time = timestamp deposit;
          future_withdraws = filter (\<lambda>w. timestamp w > deposit_time) withdraws in
      if future_withdraws \<noteq> [] then
        (Min (set (map timestamp future_withdraws)) - deposit_time) / 86400
      else (current_time - deposit_time) / 86400)"

definition calculate_holding_time :: "real \<Rightarrow> row list \<Rightarrow> row list \<Rightarrow> real" where
  "calculate_holding_time current_time deposits withdraws =
     (if deposits = [] then 0
      else let holding_times = map (holding_time_days current_time withdraws) deposits in
           if holding_times \<noteq> [] then mean holding_times else 0)"

record LPFeatures =
  total_deposit_usd :: real
  total_withdraw_usd :: real
  num_deposits :: nat
  num_withdraws :: nat
  withdraw_ratio :: real
  avg_hold_time_days :: real
  account_age_days :: real
  unique_pools :: nat

text \<open>Python's \<^verbatim>\<open>/\<close> on floats raises on a zero divisor.\<close>

definition truediv :: "real \<Rightarrow> real \<Rightarrow> pyexn + real" where
  "truediv a b = (if b = 0 then Inl ZeroDivisionError else Inr (a / b))"

text \<open>The empty dictionary that the function returns for an empty frame is \<open>None\<close>.\<close>

definition calculate_lp_features :: "real \<Rightarrow> row list \<Rightarrow> pyexn + LPFeatures option" where
  "calculate_lp_features current_time df =
     (if df = [] then Inr None
      else
       let deposits = with_action ''deposit'' df;
           withdraws = with_action ''withdraw'' df;
           td = (if deposits \<noteq> [] then sum_amount_usd deposits else 0);
           tw = (if withdraws \<noteq> [] then sum_amount_usd withdraws else 0)
       in case (if td > 0 then truediv tw td else Inr 0) of
            Inl e \<Rightarrow> Inl e
          | Inr ratio \<Rightarrow>
              Inr (Some
                \<lparr>total_deposit_usd = td,
                 total_withdraw_usd = tw,
                 num_deposits = length deposits,
                 num_withdraws = length withdraws,
                 withdraw_ratio = ratio,
                 avg_hold_time_days = calculate_holding_time current_time deposits withdraws,
                 account_age_days =
                   (if df \<noteq> [] then
                      (Max (set (map timestamp df)) - Min (set (map timestamp df))) / 86400
                    else 0),
                 unique_pools = nunique_pool_id df\<rparr>))"

record LPBreakdown =
  lp_volume_score :: real
  lp_frequency_score :: real
  lp_retention_score :: real
  lp_holding_score :: real
  lp_diversity_score :: real
  total_lp_score :: real

definition calculate_lp_score :: "LPFeatures option \<Rightarrow> real \<times> LPBreakdown option" where
  "calculate_lp_score features =
     (case features of
        None \<Rightarrow> (0, None)
      | Some f \<Rightarrow>
         (let volume_score = min (total_deposit_usd f / 10000 * 300) 300;
              frequency_score = min (real (num_deposits f) * 20) 200;
              retention_score = max 0 ((1 - withdraw_ratio f) * 250);
              holding_score = min (avg_hold_time_days f / 30 * 150) 150;
              diversity_score = min (real (unique_pools f) * 20) 100;
              total = volume_score + frequency_score + retention_score
                      + holding_score + diversity_score
          in (total,
              Some \<lparr>lp_volume_score = volume_score,
                    lp_frequency_score = frequency_score,
                    lp_retention_score = retention_score,
                    lp_holding_score = holding_score,
                    lp_diversity_score = diversity_score,
                    total_lp_score = total\<rparr>)))"

subsection \<open>Swap features and score\<close>

definition stable_tokens :: "string list" where
  "stable_tokens = [''USDC'', ''USDT'', ''DAI'', ''LUSD'', ''USDP'', ''TUSD'', ''FRAX'']"

definition token_diversity :: "row list \<Rightarrow> nat" where
  "token_diversity swaps =
     (if swaps = [] then 0
      else
       let tokens_in = List.map_filter token_in_symbol swaps;
           tokens_out = List.map_filter token_out_symbol swaps;
           all_tokens = remdups (tokens_in @ tokens_out);
           stable_count = length (filter (\<lambda>t. t \<in> set stable_tokens) all_tokens);
           volatile_count = length all_tokens - stable_count;
           diversity_score = stable_count * 10 + volatile_count * 15
       in min diversity_score 150)"

text \<open>\<^verbatim>\<open>srt["timestamp"].diff().dropna()\<close>: the differences of neighbours.\<close>

fun diffs :: "real list \<Rightarrow> real list" where
  "diffs (x # y # ys) = (y - x) # diffs (y # ys)"
| "diffs _ = []"

definition swap_frequency :: "row list \<Rightarrow> real" where
  "swap_frequency swaps =
     (if swaps = [] \<or> length swaps < 2 then 0
      else
       let srt = sort (map timestamp swaps);
           hours = map (\<lambda>d. d / 3600) (diffs srt);
           avg = mean hours
       in if avg \<le> 1 then 100
          else if avg \<le> 24 then 80
          else if avg \<le> 168 then 60
          else if avg \<le> 720 then 40
          else 20)"

record SwapFeatures =
  total_swap_volume :: real
  num_swaps :: nat
  unique_pools_swapped :: nat
  avg_swap_size :: real
  token_diversity_score :: nat
  swap_frequency_score :: real

definition calculate_swap_features :: "row list \<Rightarrow> pyexn + SwapFeatures option" where
  "calculate_swap_features df =
     (if df = [] then Inr None
      else
       let swaps = with_action ''swap'' df in
       if swaps = [] then
         Inr (Some \<lparr>total_swap_volume = 0, num_swaps = 0, unique_pools_swapped = 0,
                    avg_swap_size = 0, token_diversity_score = 0,
                    swap_frequency_score = 0\<rparr>)
       else
        let tsv = sum_amount_usd swaps;
            n = length swaps
        in case (if n > 0 then truediv tsv (real n) else Inr 0) of
             Inl e \<Rightarrow> Inl e
           | Inr avg \<Rightarrow>
               Inr (Some \<lparr>total_swap_volume = tsv,
                          num_swaps = n,
                          unique_pools_swapped = nunique_pool_id swaps,
                          avg_swap_size = avg,
                          token_diversity_score = token_diversity swaps,
                          swap_frequency_score = swap_frequency swaps\<rparr>))"

record SwapBreakdown =
  sw_volume_score :: real
  sw_frequency_score :: real
  sw_diversity_score :: real
  sw_activity_score :: real
  sw_pool_diversity_score :: real
  total_swap_score :: real

definition calculate_swap_score :: "SwapFeatures option \<Rightarrow> real \<times> SwapBreakdown option" where
  "calculate_swap_score features =
     (case features of
        None \<Rightarrow> (0, None)
      | Some f \<Rightarrow>
         (let volume_score = min (total_swap_volume f / 50000 * 250) 250;
              frequency_score = min (real (num_swaps f) * 10) 200;
              diversity_score = real (token_diversity_score f);
              activity_score = swap_frequency_score f;
              pool_diversity_score = min (real (unique_pools_swapped f) * 25) 100;
              total = volume_score + frequency_score + diversity_score
                      + activity_score + pool_diversity_score
          in (total,
              Some \<lparr>sw_volume_score = volume_score,
                    sw_frequency_score = frequency_score,
                    sw_diversity_score = diversity_score,
                    sw_activity_score = activity_score,
                    sw_pool_diversity_score = pool_diversity_score,
                    total_swap_score = total\<rparr>)))"

subsection \<open>Tags, composition, the pipeline\<close>

text \<open>\<^verbatim>\<open>features.get(key, 0)\<close> on a feature dictionary that is empty or complete.\<close>

definition lp_get :: "LPFeatures option \<Rightarrow> (LPFeatures \<Rightarrow> 'a::zero) \<Rightarrow> 'a" where
  "lp_get features key = (case features of None \<Rightarrow> 0 | Some f \<Rightarrow> key f)"

definition swap_get :: "SwapFeatures option \<Rightarrow> (SwapFeatures \<Rightarrow> 'a::zero) \<Rightarrow> 'a" where
  "swap_get features key = (case features of None \<Rightarrow> 0 | Some f \<Rightarrow> key f)"

definition lp_level_tags :: "real \<Rightarrow> string list" where
  "lp_level_tags td =
     (if td > 100000 then [''Whale LP'']
      else if td > 10000 then [''Large LP'']
      else if td > 1000 then [''Medium LP'']
      else if td > 0 then [''Small LP'']
      else [])"

definition holding_tags :: "real \<Rightarrow> string list" where
  "holding_tags ht =
     (if ht > 90 then [''Long-term Holder'']
      else if ht > 30 then [''Medium-term Holder'']
      else if ht > 0 then [''Short-term Holder'']
      else [])"

definition swap_volume_tags :: "real \<Rightarrow> string list" where
  "swap_volume_tags sv =
     (if sv > 500000 then [''Whale Trader'']
      else if sv > 50000 then [''Large Trader'']
      else if sv > 5000 then [''Active Trader'']
      else if sv > 0 then [''Casual Trader'']
      else [])"

definition frequency_tags :: "nat \<Rightarrow> string list" where
  "frequency_tags n =
     (if n > 100 then [''High Frequency Trader'']
      else if n > 20 then [''Regular Trader'']
      else [])"

definition diversity_tags :: "nat \<Rightarrow> nat \<Rightarrow> string list" where
  "diversity_tags tds up =
     (if tds > 100 then [''Diversified Trader'']
      else if up > 3 then [''Multi-Pool LP'']
      else [])"

definition generate_user_tags :: "LPFeatures option \<Rightarrow> SwapFeatures option \<Rightarrow> string list" where
  "generate_user_tags lp_features swap_features =
     lp_level_tags (lp_get lp_features total_deposit_usd)
     @ holding_tags (lp_get lp_features avg_hold_time_days)
     @ swap_volume_tags (swap_get swap_features total_swap_volume)
     @ frequency_tags (swap_get swap_features num_swaps)
     @ diversity_tags (swap_get swap_features token_diversity_score)
                      (lp_get lp_features unique_pools)"

record CompleteFeatures =
  cf_lp_features :: "LPFeatures option"
  cf_swap_features :: "SwapFeatures option"
  user_tags :: "string list"
  lp_score :: real
  swap_score :: real
  final_score :: real
  score_breakdown :: "(LPBreakdown option \<times> SwapBreakdown option) option"

definition calculate_final_score ::
  "real \<Rightarrow> real \<Rightarrow> LPFeatures option \<Rightarrow> SwapFeatures option \<Rightarrow> real \<times> CompleteFeatures" where
  "calculate_final_score lps sws lp_features swap_features =
     (let lp_weight = 6 / 10; swap_weight = 4 / 10;
          fs = lps * lp_weight + sws * swap_weight;
          tags = generate_user_tags lp_features swap_features
      in (fs,
          \<lparr>cf_lp_features = lp_features,
           cf_swap_features = swap_features,
           user_tags = tags,
           lp_score = lps,
           swap_score = sws,
           final_score = fs,
           score_breakdown = None\<rparr>))"

text \<open>The feature dictionary that \<^verbatim>\<open>process_wallet_complete\<close> returns either holds the
  single key \<^verbatim>\<open>"error"\<close> or is the complete one.\<close>

datatype features_out = ErrorFeatures string | Complete CompleteFeatures

definition process_wallet_complete ::
  "real \<Rightarrow> WalletMessage \<Rightarrow> pyexn + (real \<times> features_out \<times> row list)" where
  "process_wallet_complete current_time wallet_data =
     (case preprocess_dex_transactions wallet_data of
        Inl e \<Rightarrow> Inl e
      | Inr df \<Rightarrow>
         if df = [] then Inr (0, ErrorFeatures ''No valid transactions found'', df)
         else
          (case calculate_lp_features current_time df of
             Inl e \<Rightarrow> Inl e
           | Inr lp_features \<Rightarrow>
              (let (lps, lp_breakdown) = calculate_lp_score lp_features in
               case calculate_swap_features df of
                 Inl e \<Rightarrow> Inl e
               | Inr swap_features \<Rightarrow>
                  (let (sws, swap_breakdown) = calculate_swap_score swap_features;
                       (fs, complete_features) =
                          calculate_final_score lps sws lp_features swap_features
                   in Inr (fs,
                           Complete (complete_features
                             \<lparr>score_breakdown := Some (lp_breakdown, swap_breakdown)\<rparr>),
                           df)))))"

subsection \<open>Payloads for the outbound stream\<close>

text \<open>A payload is a Python dictionary of JSON values, in insertion order. \<open>PFixed18 z\<close>
  stands for the string \<^verbatim>\<open>f"{z:.18f}"\<close>.\<close>

datatype pyval =
    PNone
  | PInt int
  | PFloat real
  | PStr string
  | PFixed18 real
  | PList "pyval list"
  | PDict "(string \<times> pyval) list"

type_synonym payload = "(string \<times> pyval) list"

record clock =
  clock_start :: real
  clock_holding :: real
  clock_done :: real
  clock_stamp :: real

text \<open>Python's \<^verbatim>\<open>int()\<close> of a float truncates towards zero.\<close>

definition py_int :: "real \<Rightarrow> int" where
  "py_int x = (if x \<ge> 0 then \<lfloor>x\<rfloor> else \<lceil>x\<rceil>)"

definition opt_str :: "string option \<Rightarrow> pyval" where
  "opt_str v = (case v of None \<Rightarrow> PNone | Some s \<Rightarrow> PStr s)"

definition choose_timestamp :: "real \<Rightarrow> row list \<Rightarrow> int" where
  "choose_timestamp time_now df =
     (if df \<noteq> [] then py_int (Min (set (map timestamp df)))
      else py_int (real_of_int (py_int time_now)))"

definition processing_ms :: "clock \<Rightarrow> int" where
  "processing_ms c = py_int ((clock_done c - clock_start c) * 1000)"

definition failure_payload :: "clock \<Rightarrow> WalletMessage \<Rightarrow> string \<Rightarrow> row list \<Rightarrow> payload" where
  "failure_payload c wallet_data err df =
     [(''wallet_address'', opt_str (get (msg_wallet_address wallet_data))),
      (''error'', PStr err),
      (''timestamp'', PInt (choose_timestamp (clock_stamp c) df)),
      (''processing_time_ms'', PInt (processing_ms c)),
      (''categories'',
         PList [PDict [(''category'', PStr ''dexes''),
                       (''error'', PStr err),
                       (''transaction_count'', PInt (int (length df)))]])]"

definition success_payload ::
  "clock \<Rightarrow> WalletMessage \<Rightarrow> real \<Rightarrow> CompleteFeatures \<Rightarrow> row list \<Rightarrow> payload" where
  "success_payload c wallet_data z features df =
     [(''wallet_address'', opt_str (get (msg_wallet_address wallet_data))),
      (''zscore'', PFixed18 z),
      (''timestamp'', PInt (choose_timestamp (clock_stamp c) df)),
      (''processing_time_ms'', PInt (processing_ms c)),
      (''categories'',
         PList [PDict
           [(''category'', PStr ''dexes''),
            (''score'', PFloat z),
            (''transaction_count'', PInt (int (length df))),
            (''features'', PDict
               [(''total_deposit_usd'',
                   PFloat (lp_get (cf_lp_features features) total_deposit_usd)),
                (''total_withdraw_usd'',
                   PFloat (lp_get (cf_lp_features features) total_withdraw_usd)),
                (''num_deposits'',
                   PInt (int (lp_get (cf_lp_features features) num_deposits))),
                (''num_withdraws'',
                   PInt (int (lp_get (cf_lp_features features) num_withdraws))),
                (''total_swap_volume'',
                   PFloat (swap_get (cf_swap_features features) total_swap_volume)),
                (''num_swaps'',
                   PInt (int (swap_get (cf_swap_features features) num_swaps))),
                (''unique_pools'',
                   PInt (int (lp_get (cf_lp_features features) unique_pools)))])]])]"

definition exception_payload :: "clock \<Rightarrow> WalletMessage \<Rightarrow> pyexn \<Rightarrow> payload" where
  "exception_payload c wallet_data e =
     [(''wallet_address'', opt_str (get (msg_wallet_address wallet_data))),
      (''error'', PStr (''Exception during processing: '' @ exn_str e)),
      (''timestamp'', PInt (py_int (clock_stamp c))),
      (''processing_time_ms'', PInt (processing_ms c)),
      (''categories'',
         PList [PDict [(''category'', PStr ''dexes''),
                       (''error'', PStr (exn_str e)),
                       (''transaction_count'', PInt 0)]])]"

text \<open>\<^verbatim>\<open>process_wallet\<close> returns the pair \<^verbatim>\<open>(success, failure)\<close>: \<^verbatim>\<open>({}, failure)\<close> or
  \<^verbatim>\<open>(success, None)\<close>. The empty dictionary is the empty list.\<close>

definition process_wallet :: "clock \<Rightarrow> WalletMessage \<Rightarrow> payload \<times> payload option" where
  "process_wallet c wallet_data =
     (case process_wallet_complete (clock_holding c) wallet_data of
        Inr (z, ErrorFeatures err, df) \<Rightarrow> ([], Some (failure_payload c wallet_data err df))
      | Inr (z, Complete features, df) \<Rightarrow> (success_payload c wallet_data z features df, None)
      | Inl e \<Rightarrow> ([], Some (exception_payload c wallet_data e)))"

text \<open>A payload is populated when it is there and has a key.\<close>

definition success_populated :: "payload \<times> payload option \<Rightarrow> bool" where
  "success_populated res = (fst res \<noteq> [])"

definition failure_populated :: "payload \<times> payload option \<Rightarrow> bool" where
  "failure_populated res = (case snd res of None \<Rightarrow> False | Some p \<Rightarrow> p \<noteq> [])"

definition has_key :: "payload \<Rightarrow> string \<Rightarrow> bool" where
  "has_key p k = (k \<in> set (map fst p))"

definition lookup :: "payload \<Rightarrow> string \<Rightarrow> pyval option" where
  "lookup p k = map_of p k"

text \<open>The first entry of \<^verbatim>\<open>categories\<close>.\<close>

definition first_category :: "payload \<Rightarrow> payload option" where
  "first_category p =
     (case map_of p ''categories'' of
        Some (PList (PDict c # _)) \<Rightarrow> Some c
      | _ \<Rightarrow> None)"

subsection \<open>The consume loop of the stream runner\<close>

text \<open>
  \<^verbatim>\<open>KafkaService.consume\<close> iterates over the consumer. The iterator either yields a
  message or raises (a fault of the transport), which ends the loop in the outer handler.
  \<^verbatim>\<open>score_wallet\<close> is a method of a class that the repository does not define, so it is
  an argument here: it returns a score or raises. \<^verbatim>\<open>send_and_wait\<close> is an argument too:
  given the number of sends attempted so far and the message, it tells whether the send
  succeeds or raises. The state of the loop is the counters and the list of messages
  handed to \<^verbatim>\<open>send_and_wait\<close>, oldest first.
\<close>

datatype 'w inbound = Message 'w | ConsumerFault

record Stats =
  total_consumed :: nat
  total_scored :: nat
  total_failed :: nat
  total_produced :: nat

record 's outbound =
  out_wallet :: "string option"
  out_score :: 's

record 's runner =
  stats :: Stats
  attempted :: "'s outbound list"

definition produce :: "(nat \<Rightarrow> 's outbound \<Rightarrow> bool) \<Rightarrow> 's outbound \<Rightarrow> 's runner \<Rightarrow> 's runner" where
  "produce send_and_wait message st =
     (let st' = st\<lparr>attempted := attempted st @ [message]\<rparr> in
      if send_and_wait (length (attempted st)) message
      then st'\<lparr>stats := (stats st')\<lparr>total_produced := total_produced (stats st') + 1\<rparr>\<rparr>
      else st')"

definition handle_message ::
  "('w \<Rightarrow> pyexn + 's) \<Rightarrow> ('w \<Rightarrow> string option) \<Rightarrow> (nat \<Rightarrow> 's outbound \<Rightarrow> bool)
     \<Rightarrow> 'w \<Rightarrow> 's runner \<Rightarrow> 's runner" where
  "handle_message score_wallet get_wallet send_and_wait wallet_data st =
     (let st1 = st\<lparr>stats := (stats st)\<lparr>total_consumed := total_consumed (stats st) + 1\<rparr>\<rparr> in
      case score_wallet wallet_data of
        Inr score \<Rightarrow>
          (let out = \<lparr>out_wallet = get_wallet wallet_data, out_score = score\<rparr>;
               st2 = produce send_and_wait out st1
           in st2\<lparr>stats := (stats st2)\<lparr>total_scored := total_scored (stats st2) + 1\<rparr>\<rparr>)
      | Inl e \<Rightarrow>
          st1\<lparr>stats := (stats st1)\<lparr>total_failed := total_failed (stats st1) + 1\<rparr>\<rparr>)"

fun consume ::
  "('w \<Rightarrow> pyexn + 's) \<Rightarrow> ('w \<Rightarrow> string option) \<Rightarrow> (nat \<Rightarrow> 's outbound \<Rightarrow> bool)
     \<Rightarrow> 'w inbound list \<Rightarrow> 's runner \<Rightarrow> 's runner" where
  "consume score_wallet get_wallet send_and_wait [] st = st"
| "consume score_wallet get_wallet send_and_wait (ConsumerFault # rest) st = st"
| "consume score_wallet get_wallet send_and_wait (Message wallet_data # rest) st =
     consume score_wallet get_wallet send_and_wait rest
       (handle_message score_wallet get_wallet send_and_wait wallet_data st)"

definition initial_runner :: "'s runner" where
  "initial_runner =
     \<lparr>stats = \<lparr>total_consumed = 0, total_scored = 0, total_failed = 0, total_produced = 0\<rparr>,
      attempted = []\<rparr>"

text \<open>For the properties of the loop: the outputs of the messages that are scored, in
  order, and the number of messages whose scoring raises, both up to the first fault of
  the consumer.\<close>

fun scored_outputs ::
  "('w \<Rightarrow> pyexn + 's) \<Rightarrow> ('w \<Rightarrow> string option) \<Rightarrow> 'w inbound list \<Rightarrow> 's outbound list" where
  "scored_outputs score_wallet get_wallet [] = []"
| "scored_outputs score_wallet get_wallet (ConsumerFault # rest) = []"
| "scored_outputs score_wallet get_wallet (Message w # rest) =
     (case score_wallet w of
        Inr score \<Rightarrow> [\<lparr>out_wallet = get_wallet w, out_score = score\<rparr>]
      | Inl e \<Rightarrow> [])
     @ scored_outputs score_wallet get_wallet rest"

fun failures :: "('w \<Rightarrow> pyexn + 's) \<Rightarrow> 'w inbound list \<Rightarrow> nat" where
  "failures score_wallet [] = 0"
| "failures score_wallet (ConsumerFault # rest) = 0"
| "failures score_wallet (Message w # rest) =
     (case score_wallet w of Inr score \<Rightarrow> 0 | Inl e \<Rightarrow> 1) + failures score_wallet rest"

subsection \<open>Concrete inputs\<close>

text \<open>The sample message of \<^verbatim>\<open>test_challenge.py\<close>: a swap, a deposit and a withdraw in
  one pool.\<close>

definition token :: "real \<Rightarrow> string \<Rightarrow> TokenAmount jfield" where
  "token usd name = Present \<lparr>amountUSD = Present (Num usd), symbol = Present name\<rparr>"

definition transaction :: "string \<Rightarrow> real \<Rightarrow> string jfield \<Rightarrow> DexTransaction" where
  "transaction act ts pool =
     \<lparr>tx_document_id = Present ''507f1f77bcf86cd799439011'',
      tx_action = Present act,
      tx_timestamp = ts,
      tx_protocol = Present ''uniswap_v3'',
      tx_poolId = pool,
      tx_poolName = Present ''Uniswap V3 USDC/WETH 0.05%'',
      tx_tokenIn = Absent, tx_tokenOut = Absent, tx_token0 = Absent, tx_token1 = Absent\<rparr>"

definition sample_pool :: "string jfield" where
  "sample_pool = Present ''0x88e6a0c2ddd26feeb64f039a2c41296fcb3f5640''"

definition sample_swap :: DexTransaction where
  "sample_swap = (transaction ''swap'' 1703980800 sample_pool)
     \<lparr>tx_tokenIn := token 1000 ''USDC'', tx_tokenOut := token 1000 ''WETH''\<rparr>"

definition sample_deposit :: DexTransaction where
  "sample_deposit = (transaction ''deposit'' 1703980900 sample_pool)
     \<lparr>tx_token0 := token 500 ''USDC'', tx_token1 := token 500 ''WETH''\<rparr>"

definition sample_withdraw :: DexTransaction where
  "sample_withdraw = (transaction ''withdraw'' 1703981800 sample_pool)
     \<lparr>tx_token0 := token 250 ''USDC'', tx_token1 := token 250 ''WETH''\<rparr>"

definition wallet_of :: "ProtocolData list \<Rightarrow> WalletMessage" where
  "wallet_of groups =
     \<lparr>msg_wallet_address = Present ''0x742d35Cc6634C0532925a3b8D4C9db96590e4265'',
      msg_data = groups\<rparr>"

definition dexes :: "DexTransaction list \<Rightarrow> ProtocolData" where
  "dexes txs = \<lparr>protocolType = ''dexes'', transactions = txs\<rparr>"

definition sample_wallet_message :: WalletMessage where
  "sample_wallet_message = wallet_of [dexes [sample_swap, sample_deposit, sample_withdraw]]"

text \<open>A message whose only group is not DEX activity.\<close>

definition lending_only_message :: WalletMessage where
  "lending_only_message =
     wallet_of [\<lparr>protocolType = ''lending'', transactions = [sample_deposit]\<rparr>]"

text \<open>A deposit whose two legs carry the negative amounts -600 and -400, followed by a
  withdraw of 250 + 250.\<close>

definition negative_deposit_message :: WalletMessage where
  "negative_deposit_message =
     wallet_of [dexes [(transaction ''deposit'' 1703980900 sample_pool)
                         \<lparr>tx_token0 := token (- 600) ''USDC'',
                          tx_token1 := token (- 400) ''WETH''\<rparr>,
                       sample_withdraw]]"

text \<open>A single deposit of 1000 USD that is never withdrawn.\<close>

definition open_deposit_message :: WalletMessage where
  "open_deposit_message = wallet_of [dexes [sample_deposit]]"

text \<open>A deposit dated 2030-01-01, which is 1519 days after the clock reading
  \<open>1762214400\<close> (2025-11-04).\<close>

definition future_deposit_message :: WalletMessage where
  "future_deposit_message =
     wallet_of [dexes [(transaction ''deposit'' 1893456000 sample_pool)
                         \<lparr>tx_token0 := token 500 ''USDC'', tx_token1 := token 500 ''WETH''\<rparr>]]"

text \<open>A deposit dated one day after the clock reading \<open>1703980900\<close>.\<close>

definition next_day_deposit_message :: WalletMessage where
  "next_day_deposit_message =
     wallet_of [dexes [(transaction ''deposit'' 1704067300 sample_pool)
                         \<lparr>tx_token0 := token 500 ''USDC'', tx_token1 := token 500 ''WETH''\<rparr>]]"

text \<open>One transaction with an action that is none of swap, deposit and withdraw, and
  whose \<^verbatim>\<open>poolId\<close> is \<^verbatim>\<open>null\<close>; and the same with a pool.\<close>

definition transfer_null_pool_message :: WalletMessage where
  "transfer_null_pool_message = wallet_of [dexes [transaction ''transfer'' 1703980800 JNull]]"

definition transfer_message :: WalletMessage where
  "transfer_message = wallet_of [dexes [transaction ''transfer'' 1703980800 sample_pool]]"

text \<open>A swap whose \<^verbatim>\<open>amountUSD\<close> is not a number.\<close>

definition bad_amount_message :: WalletMessage where
  "bad_amount_message =
     wallet_of [dexes [(transaction ''swap'' 1703980800 sample_pool)
        \<lparr>tx_tokenIn := Present \<lparr>amountUSD = Present (Bad ''could not convert string to float''),
                                symbol = Present ''USDC''\<rparr>\<rparr>]]"

definition sample_clock :: clock where
  "sample_clock =
     \<lparr>clock_start = 1762214400, clock_holding = 1762214400 + 1 / 1000,
      clock_done = 1762214400 + 12 / 1000, clock_stamp = 1762214400 + 12 / 1000\<rparr>"

text \<open>What \<^verbatim>\<open>process_wallet_complete\<close> computes for the sample message.\<close>

definition sample_features :: CompleteFeatures where
  "sample_features =
     \<lparr>cf_lp_features =
        Some \<lparr>total_deposit_usd = 1000, total_withdraw_usd = 500, num_deposits = 1,
              num_withdraws = 1, withdraw_ratio = 1 / 2, avg_hold_time_days = 1 / 96,
              account_age_days = 5 / 432, unique_pools = 1\<rparr>,
      cf_swap_features =
        Some \<lparr>total_swap_volume = 1000, num_swaps = 1, unique_pools_swapped = 1,
              avg_swap_size = 1000, token_diversity_score = 25, swap_frequency_score = 0\<rparr>,
      user_tags = [''Small LP'', ''Short-term Holder'', ''Casual Trader''],
      lp_score = 18725 / 96, swap_score = 65, final_score = 4577 / 32,
      score_breakdown =
        Some (Some \<lparr>lp_volume_score = 30, lp_frequency_score = 20, lp_retention_score = 125,
                    lp_holding_score = 5 / 96, lp_diversity_score = 20,
                    total_lp_score = 18725 / 96\<rparr>,
              Some \<lparr>sw_volume_score = 5, sw_frequency_score = 10, sw_diversity_score = 25,
                    sw_activity_score = 0, sw_pool_diversity_score = 25,
                    total_swap_score = 65\<rparr>)\<rparr>"

subsection \<open>Reading a result of the pipeline\<close>

definition score_of :: "pyexn + (real \<times> features_out \<times> row list) \<Rightarrow> real option" where
  "score_of res = (case res of Inr (z, _, _) \<Rightarrow> Some z | Inl _ \<Rightarrow> None)"

definition complete_of ::
  "pyexn + (real \<times> features_out \<times> row list) \<Rightarrow> CompleteFeatures option" where
  "complete_of res = (case res of Inr (_, Complete cf, _) \<Rightarrow> Some cf | _ \<Rightarrow> None)"

definition rows_of :: "pyexn + (real \<times> features_out \<times> row list) \<Rightarrow> row list option" where
  "rows_of res = (case res of Inr (_, _, df) \<Rightarrow> Some df | Inl _ \<Rightarrow> None)"

text \<open>A \<^verbatim>\<open>score_wallet\<close> for the examples: it runs the pipeline of the model, returns its
  final score and raises what the pipeline raises.\<close>

definition score_wallet_model :: "real \<Rightarrow> WalletMessage \<Rightarrow> pyexn + real" where
  "score_wallet_model current_time wallet_data =
     map_sum id fst (process_wallet_complete current_time wallet_data)"

subsection \<open>Conditions on messages and rows\<close>

text \<open>The normalized rows of a message (none when preprocessing raises).\<close>

definition rows_of_message :: "WalletMessage \<Rightarrow> row list" where
  "rows_of_message w = (case preprocess_dex_transactions w of Inr df \<Rightarrow> df | Inl _ \<Rightarrow> [])"

text \<open>Every amount of the frame is non-negative; every deposit without a later withdraw
  is dated at or before the clock reading; every deposit has a withdraw with a strictly
  later timestamp.\<close>

definition amounts_nonneg :: "row list \<Rightarrow> bool" where
  "amounts_nonneg df = list_all (\<lambda>r. case amount_usd r of None \<Rightarrow> True | Some a \<Rightarrow> 0 \<le> a) df"

definition open_deposits_not_after :: "real \<Rightarrow> row list \<Rightarrow> bool" where
  "open_deposits_not_after current_time df =
     list_all (\<lambda>d. list_ex (\<lambda>w. timestamp w > timestamp d) (with_action ''withdraw'' df)
                     \<or> timestamp d \<le> current_time)
              (with_action ''deposit'' df)"

definition every_deposit_withdrawn :: "row list \<Rightarrow> bool" where
  "every_deposit_withdrawn df =
     list_all (\<lambda>d. list_ex (\<lambda>w. timestamp w > timestamp d) (with_action ''withdraw'' df))
              (with_action ''deposit'' df)"

text \<open>The transactions of the DEX-tagged groups of a message, in order, and the actions
  that \<^verbatim>\<open>preprocess_dex_transactions\<close> does not recognize.\<close>

definition dex_transactions :: "WalletMessage \<Rightarrow> DexTransaction list" where
  "dex_transactions w =
     concat (map transactions (filter (\<lambda>g. protocolType g = ''dexes'') (msg_data w)))"

definition unrecognized :: "DexTransaction \<Rightarrow> bool" where
  "unrecognized tx =
     (get (tx_action tx) \<noteq> Some ''swap'' \<and> get (tx_action tx) \<noteq> Some ''deposit''
      \<and> get (tx_action tx) \<noteq> Some ''withdraw'')"

text \<open>The LP breakdown that the pipeline attaches to the complete features.\<close>

definition lp_breakdown_of :: "real \<Rightarrow> WalletMessage \<Rightarrow> LPBreakdown option" where
  "lp_breakdown_of current_time w =
     (case complete_of (process_wallet_complete current_time w) of
        None \<Rightarrow> None
      | Some cf \<Rightarrow> (case score_breakdown cf of None \<Rightarrow> None | Some (lb, sb) \<Rightarrow> lb))"

text \<open>Feature sets for the examples: a deposit total far above the cap threshold, and
  the swap features of a heavy trader.\<close>

definition large_lp_features :: LPFeatures where
  "large_lp_features =
     \<lparr>total_deposit_usd = 10000000, total_withdraw_usd = 2500000, num_deposits = 400,
      num_withdraws = 10, withdraw_ratio = 1 / 4, avg_hold_time_days = 3650,
      account_age_days = 4000, unique_pools = 60\<rparr>"

definition large_swap_features :: SwapFeatures where
  "large_swap_features =
     \<lparr>total_swap_volume = 90000000, num_swaps = 5000, unique_pools_swapped = 70,
      avg_swap_size = 18000, token_diversity_score = 150, swap_frequency_score = 100\<rparr>"

section \<open>Properties\<close>

subsection \<open>The consume loop\<close>

lemma handle_message_scoring_raises:
  assumes "score_wallet w = Inl e"
  shows "handle_message score_wallet get_wallet send_and_wait w st
         = st\<lparr>stats := (stats st)\<lparr>total_consumed := total_consumed (stats st) + 1,
                                   total_failed := total_failed (stats st) + 1\<rparr>\<rparr>"
  using assms by (simp add: handle_message_def)

lemma handle_message_attempted_on_raise:
  assumes "score_wallet w = Inl e"
  shows "attempted (handle_message score_wallet get_wallet send_and_wait w st) = attempted st"
  using assms by (simp add: handle_message_def)

text \<open>On any stream, the loop hands to \<^verbatim>\<open>send_and_wait\<close> exactly the outputs of the
  scored messages, and counts one failure for each message whose scoring raises.\<close>

lemma attempted_handle_message:
  "attempted (handle_message score_wallet get_wallet send_and_wait w st)
   = attempted st
     @ (case score_wallet w of
          Inr score \<Rightarrow> [\<lparr>out_wallet = get_wallet w, out_score = score\<rparr>]
        | Inl e \<Rightarrow> [])"
  by (simp add: handle_message_def produce_def Let_def split: sum.splits)

lemma total_failed_handle_message:
  "total_failed (stats (handle_message score_wallet get_wallet send_and_wait w st))
   = total_failed (stats st) + (case score_wallet w of Inr score \<Rightarrow> 0 | Inl e \<Rightarrow> 1)"
  by (simp add: handle_message_def produce_def Let_def split: sum.splits)

lemma consume_attempted:
  "attempted (consume score_wallet get_wallet send_and_wait msgs st)
   = attempted st @ scored_outputs score_wallet get_wallet msgs"
  by (induction score_wallet get_wallet send_and_wait msgs st rule: consume.induct)
     (simp_all add: attempted_handle_message)

lemma consume_total_failed:
  "total_failed (stats (consume score_wallet get_wallet send_and_wait msgs st))
   = total_failed (stats st) + failures score_wallet msgs"
  by (induction score_wallet get_wallet send_and_wait msgs st rule: consume.induct)
     (simp_all add: total_failed_handle_message)

text \<open>
  Claim C1. When scoring a message raises, the consume loop should count the failure,
  still hand a failure payload to the outbound stream, and go on with the next message.
  The loop does count the failure and does go on, but its handler never calls
  \<^verbatim>\<open>produce\<close>: on the stream of the sample message, a message whose \<^verbatim>\<open>amountUSD\<close> is not a
  number, and a third message, three messages are consumed, one fails, and only the two
  scores are handed to \<^verbatim>\<open>send_and_wait\<close>. Nothing is sent for the second message.
\<close>

theorem consume_sends_nothing_for_failed_message:
  "score_wallet_model 1762214400 bad_amount_message
     = Inl (ValueError ''could not convert string to float'')
   \<and> consume (score_wallet_model 1762214400) (\<lambda>w. None) (\<lambda>n m. True)
      [Message sample_wallet_message, Message bad_amount_message, Message transfer_message]
      initial_runner
   = \<lparr>stats = \<lparr>total_consumed = 3, total_scored = 2, total_failed = 1, total_produced = 2\<rparr>,
      attempted = [\<lparr>out_wallet = None, out_score = 4577 / 32\<rparr>,
                   \<lparr>out_wallet = None, out_score = 162\<rparr>]\<rparr>"
  by code_simp

subsection \<open>Composition of the final score\<close>

text \<open>
  Claim C5. Whenever the pipeline produces LP and swap sub-scores, the final score it
  returns, and the one it stores in the complete features, is 0.6 times the LP score plus
  0.4 times the swap score; the two sub-scores are those of \<open>calculate_lp_score\<close> and
  \<open>calculate_swap_score\<close> on the features of the normalized rows.
\<close>

theorem final_score_weighted_sum:
  assumes "complete_of (process_wallet_complete now w) = Some cf"
  shows "score_of (process_wallet_complete now w)
           = Some (6 / 10 * lp_score cf + 4 / 10 * swap_score cf)
         \<and> final_score cf = 6 / 10 * lp_score cf + 4 / 10 * swap_score cf
         \<and> (\<exists>df lpf swf. rows_of (process_wallet_complete now w) = Some df
               \<and> calculate_lp_features now df = Inr lpf
               \<and> calculate_swap_features df = Inr swf
               \<and> lp_score cf = fst (calculate_lp_score lpf)
               \<and> swap_score cf = fst (calculate_swap_score swf)
               \<and> fst (calculate_final_score (lp_score cf) (swap_score cf) lpf swf)
                    = 6 / 10 * lp_score cf + 4 / 10 * swap_score cf)"
  using assms
  by (auto simp: calculate_final_score_def process_wallet_complete_def Let_def
                 complete_of_def score_of_def rows_of_def
           split: sum.splits if_splits prod.splits)

theorem final_score_weighted_sum_witness:
  "complete_of (process_wallet_complete 1762214400 sample_wallet_message) = Some sample_features
   \<and> score_of (process_wallet_complete 1762214400 sample_wallet_message)
       = Some (6 / 10 * (18725 / 96) + 4 / 10 * 65)
   \<and> lp_score sample_features = 18725 / 96 \<and> swap_score sample_features = 65"
proof -
  have h: "complete_of (process_wallet_complete 1762214400 sample_wallet_message)
             = Some sample_features"
    by code_simp
  have v: "lp_score sample_features = 18725 / 96 \<and> swap_score sample_features = 65"
    by (simp add: sample_features_def)
  from final_score_weighted_sum [OF h] v h show ?thesis by simp
qed

subsection \<open>Messages without DEX transactions\<close>

lemma rows_of_groups_no_dex:
  assumes "\<forall>g \<in> set gs. protocolType g \<noteq> ''dexes'' \<or> transactions g = []"
  shows "rows_of_groups wa gs rows = Inr rows"
  using assms by (induction gs arbitrary: rows) auto

text \<open>
  Claim C6. A message whose transaction data is empty, or whose groups are all non-DEX
  (or DEX groups without transactions), gets the failure payload
  "No valid transactions found" with a transaction count of 0 and no score: the pipeline
  returns the error features, \<open>process_wallet\<close> returns an empty success payload and the
  failure payload, which has no \<^verbatim>\<open>zscore\<close>.
\<close>

theorem no_dex_transactions_failure:
  assumes "msg_data w = []
           \<or> (\<forall>g \<in> set (msg_data w). protocolType g \<noteq> ''dexes'' \<or> transactions g = [])"
  shows "process_wallet_complete now w
           = Inr (0, ErrorFeatures ''No valid transactions found'', [])
         \<and> process_wallet c w
             = ([], Some (failure_payload c w ''No valid transactions found'' []))
         \<and> lookup (failure_payload c w ''No valid transactions found'' []) ''error''
             = Some (PStr ''No valid transactions found'')
         \<and> lookup (failure_payload c w ''No valid transactions found'' []) ''zscore'' = None
         \<and> first_category (failure_payload c w ''No valid transactions found'' [])
             = Some [(''category'', PStr ''dexes''),
                     (''error'', PStr ''No valid transactions found''),
                     (''transaction_count'', PInt 0)]"
proof -
  from assms
  have "\<forall>g \<in> set (msg_data w). protocolType g \<noteq> ''dexes'' \<or> transactions g = []"
    by auto
  then have pre: "preprocess_dex_transactions w = Inr []"
    by (simp add: preprocess_dex_transactions_def rows_of_groups_no_dex)
  have pwc: "process_wallet_complete t w
               = Inr (0, ErrorFeatures ''No valid transactions found'', [])" for t
    by (simp add: process_wallet_complete_def pre)
  have pw: "process_wallet c w
              = ([], Some (failure_payload c w ''No valid transactions found'' []))"
    by (simp add: process_wallet_def pwc)
  have l1: "lookup (failure_payload c w ''No valid transactions found'' []) ''error''
             = Some (PStr ''No valid transactions found'')"
    by (simp add: lookup_def failure_payload_def)
  have l2: "lookup (failure_payload c w ''No valid transactions found'' []) ''zscore'' = None"
    by (simp add: lookup_def failure_payload_def)
  have l3: "first_category (failure_payload c w ''No valid transactions found'' [])
             = Some [(''category'', PStr ''dexes''),
                     (''error'', PStr ''No valid transactions found''),
                     (''transaction_count'', PInt 0)]"
    by (simp add: first_category_def failure_payload_def)
  show ?thesis using pwc pw l1 l2 l3 by blast
qed

theorem no_dex_transactions_failure_witness:
  "map protocolType (msg_data lending_only_message) = [''lending'']
   \<and> process_wallet sample_clock lending_only_message
       = ([], Some (failure_payload sample_clock lending_only_message
                      ''No valid transactions found'' []))
   \<and> first_category (failure_payload sample_clock lending_only_message
                        ''No valid transactions found'' [])
       = Some [(''category'', PStr ''dexes''),
               (''error'', PStr ''No valid transactions found''),
               (''transaction_count'', PInt 0)]"
proof -
  have m: "map protocolType (msg_data lending_only_message) = [''lending'']"
    by (simp add: lending_only_message_def wallet_of_def)
  have "\<forall>g \<in> set (msg_data lending_only_message).
          protocolType g \<noteq> ''dexes'' \<or> transactions g = []"
    by (simp add: lending_only_message_def wallet_of_def)
  then have h: "msg_data lending_only_message = []
                \<or> (\<forall>g \<in> set (msg_data lending_only_message).
                      protocolType g \<noteq> ''dexes'' \<or> transactions g = [])"
    by blast
  from no_dex_transactions_failure [OF h, of 0 sample_clock] m show ?thesis by blast
qed

subsection \<open>Success or failure, never both\<close>

lemma has_key_failure:
  "has_key (failure_payload c w err df) ''error''
   \<and> \<not> has_key (failure_payload c w err df) ''zscore''"
  by (simp add: has_key_def failure_payload_def)

lemma has_key_exception:
  "has_key (exception_payload c w e) ''error''
   \<and> \<not> has_key (exception_payload c w e) ''zscore''"
  by (simp add: has_key_def exception_payload_def)

lemma has_key_success:
  "has_key (success_payload c w z f df) ''zscore''
   \<and> \<not> has_key (success_payload c w z f df) ''error''"
  by (simp add: has_key_def success_payload_def)

lemma process_wallet_cases:
  "(\<exists>err df. process_wallet c w = ([], Some (failure_payload c w err df)))
   \<or> (\<exists>e. process_wallet c w = ([], Some (exception_payload c w e)))
   \<or> (\<exists>z f df. process_wallet c w = (success_payload c w z f df, None))"
  by (auto simp: process_wallet_def split: sum.splits prod.splits features_out.splits)

lemma payload_nonempty:
  "failure_payload c w err df \<noteq> []"
  "exception_payload c w e \<noteq> []"
  "success_payload c w z f df \<noteq> []"
  by (simp_all add: failure_payload_def exception_payload_def success_payload_def)

text \<open>
  Claim C7. For every message and every clock, \<open>process_wallet\<close> populates exactly one of
  its two payloads. Either the success payload is populated, the failure payload is
  \<^verbatim>\<open>None\<close>, and the success payload has the key \<^verbatim>\<open>zscore\<close> and not the key \<^verbatim>\<open>error\<close>; or
  the failure payload is populated, the success payload is the empty dictionary, and the
  failure payload has the key \<^verbatim>\<open>error\<close> and not the key \<^verbatim>\<open>zscore\<close>.
\<close>

theorem process_wallet_exactly_one:
  "(success_populated (process_wallet c w) \<and> \<not> failure_populated (process_wallet c w)
      \<and> snd (process_wallet c w) = None
      \<and> has_key (fst (process_wallet c w)) ''zscore''
      \<and> \<not> has_key (fst (process_wallet c w)) ''error'')
   \<or> (failure_populated (process_wallet c w) \<and> \<not> success_populated (process_wallet c w)
      \<and> fst (process_wallet c w) = []
      \<and> (\<exists>p. snd (process_wallet c w) = Some p
              \<and> has_key p ''error'' \<and> \<not> has_key p ''zscore''))"
  using process_wallet_cases [of c w]
  by (elim disjE exE)
     (simp_all add: success_populated_def failure_populated_def payload_nonempty
                    has_key_failure has_key_exception has_key_success)

theorem process_wallet_exactly_one_witness:
  "(success_populated (process_wallet sample_clock sample_wallet_message)
     \<and> \<not> failure_populated (process_wallet sample_clock sample_wallet_message)
     \<and> has_key (fst (process_wallet sample_clock sample_wallet_message)) ''zscore'')
   \<and> (failure_populated (process_wallet sample_clock bad_amount_message)
     \<and> \<not> success_populated (process_wallet sample_clock bad_amount_message)
     \<and> fst (process_wallet sample_clock bad_amount_message) = [])"
proof -
  have s: "success_populated (process_wallet sample_clock sample_wallet_message)"
    by code_simp
  have f: "failure_populated (process_wallet sample_clock bad_amount_message)"
    by code_simp
  from process_wallet_exactly_one [of sample_clock sample_wallet_message]
       process_wallet_exactly_one [of sample_clock bad_amount_message] s f
  show ?thesis by blast
qed

subsection \<open>Tags\<close>

lemma lp_level_tags_shape:
  "length (lp_level_tags td) \<le> 1 \<and> distinct (lp_level_tags td)
   \<and> set (lp_level_tags td) \<subseteq> {''Whale LP'', ''Large LP'', ''Medium LP'', ''Small LP''}"
  by (simp add: lp_level_tags_def)

lemma holding_tags_shape:
  "length (holding_tags ht) \<le> 1 \<and> distinct (holding_tags ht)
   \<and> set (holding_tags ht)
       \<subseteq> {''Long-term Holder'', ''Medium-term Holder'', ''Short-term Holder''}"
  by (simp add: holding_tags_def)

lemma swap_volume_tags_shape:
  "length (swap_volume_tags sv) \<le> 1 \<and> distinct (swap_volume_tags sv)
   \<and> set (swap_volume_tags sv)
       \<subseteq> {''Whale Trader'', ''Large Trader'', ''Active Trader'', ''Casual Trader''}"
  by (simp add: swap_volume_tags_def)

lemma frequency_tags_shape:
  "length (frequency_tags n) \<le> 1 \<and> distinct (frequency_tags n)
   \<and> set (frequency_tags n) \<subseteq> {''High Frequency Trader'', ''Regular Trader''}"
  by (simp add: frequency_tags_def)

lemma diversity_tags_shape:
  "length (diversity_tags a b) \<le> 1 \<and> distinct (diversity_tags a b)
   \<and> set (diversity_tags a b) \<subseteq> {''Diversified Trader'', ''Multi-Pool LP''}"
  by (simp add: diversity_tags_def)

lemma disjoint_by_bounds:
  "set xs \<subseteq> A \<Longrightarrow> set ys \<subseteq> B \<Longrightarrow> A \<inter> B = {} \<Longrightarrow> set xs \<inter> set ys = {}"
  by blast

text \<open>
  Claim C9. For every pair of LP and swap feature mappings, the list that
  \<open>generate_user_tags\<close> returns has at most 5 tags and no tag twice.
\<close>

theorem generate_user_tags_at_most_five_distinct:
  "length (generate_user_tags lp_features swap_features) \<le> 5
   \<and> distinct (generate_user_tags lp_features swap_features)"
proof -
  define a where "a = lp_level_tags (lp_get lp_features total_deposit_usd)"
  define b where "b = holding_tags (lp_get lp_features avg_hold_time_days)"
  define c where "c = swap_volume_tags (swap_get swap_features total_swap_volume)"
  define d where "d = frequency_tags (swap_get swap_features num_swaps)"
  define e where "e = diversity_tags (swap_get swap_features token_diversity_score)
                                      (lp_get lp_features unique_pools)"
  have tags: "generate_user_tags lp_features swap_features = a @ b @ c @ d @ e"
    by (simp add: generate_user_tags_def a_def b_def c_def d_def e_def)
  note A = lp_level_tags_shape [of "lp_get lp_features total_deposit_usd", folded a_def]
  note B = holding_tags_shape [of "lp_get lp_features avg_hold_time_days", folded b_def]
  note C = swap_volume_tags_shape [of "swap_get swap_features total_swap_volume", folded c_def]
  note D = frequency_tags_shape [of "swap_get swap_features num_swaps", folded d_def]
  note E = diversity_tags_shape [of "swap_get swap_features token_diversity_score"
                                    "lp_get lp_features unique_pools", folded e_def]
  note sA = conjunct2 [OF conjunct2 [OF A]]
  note sB = conjunct2 [OF conjunct2 [OF B]]
  note sC = conjunct2 [OF conjunct2 [OF C]]
  note sD = conjunct2 [OF conjunct2 [OF D]]
  note sE = conjunct2 [OF conjunct2 [OF E]]
  have len: "length (a @ b @ c @ d @ e) \<le> 5"
    using A B C D E by simp
  have ab: "set a \<inter> set b = {}" by (rule disjoint_by_bounds [OF sA sB]) simp
  have ac: "set a \<inter> set c = {}" by (rule disjoint_by_bounds [OF sA sC]) simp
  have ad: "set a \<inter> set d = {}" by (rule disjoint_by_bounds [OF sA sD]) simp
  have ae: "set a \<inter> set e = {}" by (rule disjoint_by_bounds [OF sA sE]) simp
  have bc: "set b \<inter> set c = {}" by (rule disjoint_by_bounds [OF sB sC]) simp
  have bd: "set b \<inter> set d = {}" by (rule disjoint_by_bounds [OF sB sD]) simp
  have be: "set b \<inter> set e = {}" by (rule disjoint_by_bounds [OF sB sE]) simp
  have cd: "set c \<inter> set d = {}" by (rule disjoint_by_bounds [OF sC sD]) simp
  have ce: "set c \<inter> set e = {}" by (rule disjoint_by_bounds [OF sC sE]) simp
  have de: "set d \<inter> set e = {}" by (rule disjoint_by_bounds [OF sD sE]) simp
  have dist: "distinct (a @ b @ c @ d @ e)"
    using A B C D E ab ac ad ae bc bd be cd ce de
    by (simp add: Int_Un_distrib Int_Un_distrib2)
  show ?thesis using len dist by (simp only: tags simp_thms)
qed

subsection \<open>Ranges of the features\<close>

lemma amounts_nonneg_with_action:
  "amounts_nonneg df \<Longrightarrow> amounts_nonneg (with_action a df)"
  by (simp add: amounts_nonneg_def with_action_def list_all_iff)

lemma sum_amount_usd_nonneg:
  assumes "amounts_nonneg df"
  shows "0 \<le> sum_amount_usd df"
proof -
  have "0 \<le> x" if "x \<in> set (List.map_filter amount_usd df)" for x
  proof -
    from that obtain r where "r \<in> set df" "amount_usd r = Some x"
      by (auto simp: List.map_filter_def)
    with assms show ?thesis by (auto simp: amounts_nonneg_def list_all_iff)
  qed
  then show ?thesis unfolding sum_amount_usd_def by (intro sum_list_nonneg)
qed

lemma holding_time_days_nonneg:
  assumes "list_ex (\<lambda>w. timestamp w > timestamp d) ws \<or> timestamp d \<le> now"
  shows "0 \<le> holding_time_days now ws d"
proof (cases "filter (\<lambda>w. timestamp w > timestamp d) ws = []")
  case True
  then have "\<not> list_ex (\<lambda>w. timestamp w > timestamp d) ws"
    by (simp add: list_ex_iff filter_empty_conv)
  with assms have "timestamp d \<le> now" by blast
  with True show ?thesis by (simp add: holding_time_days_def Let_def)
next
  case False
  let ?fw = "filter (\<lambda>w. timestamp w > timestamp d) ws"
  from False have ne: "set (map timestamp ?fw) \<noteq> {}"
    by (simp only: set_empty map_is_Nil_conv not_False_eq_True)
  have "Min (set (map timestamp ?fw)) \<in> set (map timestamp ?fw)"
    using ne by (intro Min_in) simp
  then have "timestamp d < Min (set (map timestamp ?fw))"
    by auto
  then show ?thesis using False by (simp add: holding_time_days_def Let_def)
qed

lemma mean_nonneg:
  assumes "\<forall>x \<in> set xs. 0 \<le> x"
  shows "0 \<le> mean xs"
proof -
  have "0 \<le> sum_list xs" using assms by (intro sum_list_nonneg) simp
  then show ?thesis by (simp add: mean_def)
qed

lemma calculate_holding_time_nonneg:
  assumes "list_all (\<lambda>d. list_ex (\<lambda>w. timestamp w > timestamp d) ws \<or> timestamp d \<le> now) ds"
  shows "0 \<le> calculate_holding_time now ds ws"
proof -
  have "\<forall>x \<in> set (map (holding_time_days now ws) ds). 0 \<le> x"
    using assms by (auto simp: list_all_iff intro: holding_time_days_nonneg)
  then have "0 \<le> mean (map (holding_time_days now ws) ds)" by (rule mean_nonneg)
  then show ?thesis by (simp add: calculate_holding_time_def Let_def)
qed

lemma token_diversity_le: "token_diversity swaps \<le> 150"
  by (simp add: token_diversity_def Let_def)

lemma swap_frequency_range: "0 \<le> swap_frequency swaps \<and> swap_frequency swaps \<le> 100"
  by (simp add: swap_frequency_def Let_def)

lemma lp_features_shape:
  "df \<noteq> [] \<Longrightarrow> \<exists>f. calculate_lp_features now df = Inr (Some f)"
  by (simp add: calculate_lp_features_def truediv_def Let_def)

lemma swap_features_shape:
  "df \<noteq> [] \<Longrightarrow> \<exists>g. calculate_swap_features df = Inr (Some g)"
  by (simp add: calculate_swap_features_def truediv_def Let_def)

lemma lp_features_eq:
  assumes "calculate_lp_features now df = Inr (Some f)"
  shows "total_deposit_usd f
           = (if with_action ''deposit'' df \<noteq> []
              then sum_amount_usd (with_action ''deposit'' df) else 0)"
    and "total_withdraw_usd f
           = (if with_action ''withdraw'' df \<noteq> []
              then sum_amount_usd (with_action ''withdraw'' df) else 0)"
    and "withdraw_ratio f
           = (if total_deposit_usd f > 0 then total_withdraw_usd f / total_deposit_usd f
              else 0)"
    and "avg_hold_time_days f
           = calculate_holding_time now (with_action ''deposit'' df)
               (with_action ''withdraw'' df)"
  using assms
  by (auto simp: calculate_lp_features_def Let_def truediv_def split: if_splits)

lemma lp_features_nonneg:
  assumes "calculate_lp_features now df = Inr (Some f)"
    and "amounts_nonneg df" and "open_deposits_not_after now df"
  shows "0 \<le> total_deposit_usd f \<and> 0 \<le> withdraw_ratio f \<and> 0 \<le> avg_hold_time_days f"
proof -
  note F = lp_features_eq [OF assms(1)]
  have td0: "0 \<le> total_deposit_usd f"
    by (simp add: F(1) sum_amount_usd_nonneg [OF amounts_nonneg_with_action [OF assms(2)]])
  have tw0: "0 \<le> total_withdraw_usd f"
    by (simp add: F(2) sum_amount_usd_nonneg [OF amounts_nonneg_with_action [OF assms(2)]])
  have h0: "0 \<le> avg_hold_time_days f"
    unfolding F(4) using assms(3)
    by (intro calculate_holding_time_nonneg) (simp add: open_deposits_not_after_def)
  have r0: "0 \<le> withdraw_ratio f" using td0 tw0 by (simp add: F(3))
  show ?thesis using td0 r0 h0 by blast
qed

lemma swap_features_range:
  assumes "calculate_swap_features df = Inr (Some g)" and "amounts_nonneg df"
  shows "0 \<le> total_swap_volume g \<and> token_diversity_score g \<le> 150
         \<and> 0 \<le> swap_frequency_score g \<and> swap_frequency_score g \<le> 100"
proof (cases "with_action ''swap'' df = []")
  case True
  with assms(1) show ?thesis
    by (auto simp: calculate_swap_features_def Let_def split: if_splits)
next
  case False
  from assms(1) False
  have g1: "total_swap_volume g = sum_amount_usd (with_action ''swap'' df)"
    and g2: "token_diversity_score g = token_diversity (with_action ''swap'' df)"
    and g3: "swap_frequency_score g = swap_frequency (with_action ''swap'' df)"
    by (auto simp: calculate_swap_features_def Let_def truediv_def split: if_splits)
  show ?thesis
    using sum_amount_usd_nonneg [OF amounts_nonneg_with_action [OF assms(2)], of "''swap''"]
          token_diversity_le [of "with_action ''swap'' df"]
          swap_frequency_range [of "with_action ''swap'' df"]
    by (simp add: g1 g2 g3)
qed

subsection \<open>The withdraw ratio\<close>

text \<open>
  Claim C8, as amended. For every normalized row set, \<open>calculate_lp_features\<close> raises
  nothing, in particular no division by zero: it returns the empty feature set for the
  empty row set, and features otherwise. The withdraw ratio of these features is the
  quotient of the withdrawn and the deposited total when the deposited total is positive,
  and 0 otherwise; it is 0 whenever the deposited total is 0 and whenever there is no
  deposit row.
\<close>

theorem withdraw_ratio_guarded:
  "calculate_lp_features now df \<noteq> Inl e
   \<and> ((df = [] \<and> calculate_lp_features now df = Inr None)
      \<or> (\<exists>f. calculate_lp_features now df = Inr (Some f)
            \<and> withdraw_ratio f
                = (if total_deposit_usd f > 0
                   then total_withdraw_usd f / total_deposit_usd f else 0)
            \<and> (total_deposit_usd f = 0 \<longrightarrow> withdraw_ratio f = 0)
            \<and> (with_action ''deposit'' df = [] \<longrightarrow>
                  total_deposit_usd f = 0 \<and> withdraw_ratio f = 0)))"
proof (cases "df = []")
  case True
  then show ?thesis by (simp add: calculate_lp_features_def)
next
  case False
  from lp_features_shape [OF False, of now]
  obtain f where f: "calculate_lp_features now df = Inr (Some f)" by blast
  note F = lp_features_eq [OF f]
  have 0: "calculate_lp_features now df \<noteq> Inl e" by (simp add: f)
  have 1: "total_deposit_usd f = 0 \<longrightarrow> withdraw_ratio f = 0" by (simp add: F(3))
  have 2: "with_action ''deposit'' df = [] \<longrightarrow>
             total_deposit_usd f = 0 \<and> withdraw_ratio f = 0"
    by (simp add: F(1) F(3))
  from f F(3) 0 1 2 show ?thesis by blast
qed

theorem withdraw_ratio_guarded_witness:
  "rows_of_message sample_wallet_message \<noteq> []
   \<and> calculate_lp_features 1762214400 (rows_of_message sample_wallet_message)
       = Inr (cf_lp_features sample_features)
   \<and> lp_get (cf_lp_features sample_features) total_deposit_usd = 1000
   \<and> lp_get (cf_lp_features sample_features) total_withdraw_usd = 500
   \<and> lp_get (cf_lp_features sample_features) withdraw_ratio = 500 / 1000"
proof -
  have h: "rows_of_message sample_wallet_message \<noteq> []" by code_simp
  have v: "calculate_lp_features 1762214400 (rows_of_message sample_wallet_message)
             = Inr (cf_lp_features sample_features)"
    by code_simp
  have c: "cf_lp_features sample_features
             = Some \<lparr>total_deposit_usd = 1000, total_withdraw_usd = 500, num_deposits = 1,
                     num_withdraws = 1, withdraw_ratio = 1 / 2, avg_hold_time_days = 1 / 96,
                     account_age_days = 5 / 432, unique_pools = 1\<rparr>"
    by (simp add: sample_features_def)
  from withdraw_ratio_guarded [of 1762214400 "rows_of_message sample_wallet_message"] h
  obtain f where f: "calculate_lp_features 1762214400 (rows_of_message sample_wallet_message)
                       = Inr (Some f)"
    and r: "withdraw_ratio f
              = (if total_deposit_usd f > 0 then total_withdraw_usd f / total_deposit_usd f
                 else 0)"
    by blast
  from f v c have fe: "f = \<lparr>total_deposit_usd = 1000, total_withdraw_usd = 500,
                     num_deposits = 1,
                     num_withdraws = 1, withdraw_ratio = 1 / 2, avg_hold_time_days = 1 / 96,
                     account_age_days = 5 / 432, unique_pools = 1\<rparr>"
    by simp
  from r have "withdraw_ratio f = 500 / 1000" by (simp add: fe)
  then have "lp_get (cf_lp_features sample_features) withdraw_ratio = 500 / 1000"
    by (simp add: lp_get_def c fe)
  moreover have "lp_get (cf_lp_features sample_features) total_deposit_usd = 1000"
    and "lp_get (cf_lp_features sample_features) total_withdraw_usd = 500"
    by (simp_all add: lp_get_def c)
  ultimately show ?thesis using h v by blast
qed

text \<open>
  Claim C8 as stated fails: the guard of the ratio is a positive deposited total, not the
  existence of deposits. For a deposit with the legs -600 and -400 and a withdraw of 500,
  a deposit row exists, the deposited total is -1000 and the withdrawn total 500, and the
  withdraw ratio is 0, not the quotient -1/2.
\<close>

theorem negative_deposit_total_ratio_zero:
  "with_action ''deposit'' (rows_of_message negative_deposit_message) \<noteq> []
   \<and> map_sum id (map_option total_deposit_usd)
        (calculate_lp_features 1762214400 (rows_of_message negative_deposit_message))
       = Inr (Some (- 1000))
   \<and> map_sum id (map_option total_withdraw_usd)
        (calculate_lp_features 1762214400 (rows_of_message negative_deposit_message))
       = Inr (Some 500)
   \<and> map_sum id (map_option withdraw_ratio)
        (calculate_lp_features 1762214400 (rows_of_message negative_deposit_message))
       = Inr (Some 0)
   \<and> (500 / (- 1000) :: real) \<noteq> 0"
  by code_simp

subsection \<open>The score and the clock\<close>

lemma holding_time_days_clock_free:
  assumes "list_ex (\<lambda>w. timestamp w > timestamp d) ws"
  shows "holding_time_days t1 ws d = holding_time_days t2 ws d"
proof -
  from assms have "filter (\<lambda>w. timestamp w > timestamp d) ws \<noteq> []"
    by (auto simp: list_ex_iff filter_empty_conv)
  then show ?thesis by (simp add: holding_time_days_def Let_def)
qed

lemma calculate_holding_time_clock_free:
  assumes "list_all (\<lambda>d. list_ex (\<lambda>w. timestamp w > timestamp d) ws) ds"
  shows "calculate_holding_time t1 ds ws = calculate_holding_time t2 ds ws"
proof -
  have "map (holding_time_days t1 ws) ds = map (holding_time_days t2 ws) ds"
    using assms by (auto simp: list_all_iff intro: holding_time_days_clock_free)
  then show ?thesis unfolding calculate_holding_time_def Let_def by (simp only:)
qed

lemma calculate_lp_features_clock_free:
  assumes "every_deposit_withdrawn df"
  shows "calculate_lp_features t1 df = calculate_lp_features t2 df"
  unfolding calculate_lp_features_def Let_def
  by (simp only: calculate_holding_time_clock_free
                   [OF assms [unfolded every_deposit_withdrawn_def], of t1 t2])

text \<open>
  Claim C3, as amended. The final score is a function of the message and of the clock
  reading that \<open>calculate_holding_time\<close> takes. When every deposit row has a withdraw row
  with a strictly later timestamp (in particular when there is no deposit), the result of
  the pipeline is the same at any two clock readings: two runs on the same message give
  the same final score.
\<close>

theorem final_score_clock_free:
  assumes "every_deposit_withdrawn (rows_of_message w)"
  shows "process_wallet_complete t1 w = process_wallet_complete t2 w"
proof (cases "preprocess_dex_transactions w")
  case (Inl e)
  then show ?thesis by (simp add: process_wallet_complete_def)
next
  case (Inr df)
  with assms have "every_deposit_withdrawn df" by (simp add: rows_of_message_def)
  then have "calculate_lp_features t1 df = calculate_lp_features t2 df"
    by (rule calculate_lp_features_clock_free)
  then show ?thesis by (simp add: process_wallet_complete_def Inr)
qed

theorem final_score_clock_free_witness:
  "every_deposit_withdrawn (rows_of_message sample_wallet_message)
   \<and> process_wallet_complete 1703981800 sample_wallet_message
       = process_wallet_complete 1762214400 sample_wallet_message
   \<and> score_of (process_wallet_complete 1762214400 sample_wallet_message) = Some (4577 / 32)"
proof -
  have h: "every_deposit_withdrawn (rows_of_message sample_wallet_message)" by code_simp
  have v: "score_of (process_wallet_complete 1762214400 sample_wallet_message)
             = Some (4577 / 32)"
    by code_simp
  from final_score_clock_free [OF h, of 1703981800 1762214400] h v show ?thesis by simp
qed

text \<open>
  Claim C3 as stated fails: a deposit that is never withdrawn is held until the clock
  reading, so the same message scores 195 one day after the deposit and 198 two days
  after it.
\<close>

theorem final_score_depends_on_clock:
  "score_of (process_wallet_complete 1704067300 open_deposit_message) = Some 195
   \<and> score_of (process_wallet_complete 1704153700 open_deposit_message) = Some 198
   \<and> score_of (process_wallet_complete 1704067300 open_deposit_message)
       \<noteq> score_of (process_wallet_complete 1704153700 open_deposit_message)"
  by code_simp

subsection \<open>Transactions with unrecognized actions\<close>

lemma make_row_unrecognized:
  assumes "unrecognized tx"
  shows "make_row wa tx = Inr (base_row wa tx)"
  using assms by (simp add: make_row_def unrecognized_def Let_def)

lemma rows_of_transactions_unrecognized:
  assumes "list_all unrecognized txs"
  shows "rows_of_transactions wa txs rows = Inr (rows @ map (base_row wa) txs)"
  using assms by (induction txs arbitrary: rows) (simp_all add: make_row_unrecognized)

lemma rows_of_groups_unrecognized:
  assumes "list_all unrecognized
             (concat (map transactions (filter (\<lambda>g. protocolType g = ''dexes'') gs)))"
  shows "rows_of_groups wa gs rows
         = Inr (rows @ map (base_row wa)
                  (concat (map transactions (filter (\<lambda>g. protocolType g = ''dexes'') gs))))"
  using assms
  by (induction gs arbitrary: rows) (auto simp: rows_of_transactions_unrecognized)

lemma preprocess_unrecognized:
  assumes "list_all unrecognized (dex_transactions w)"
  shows "preprocess_dex_transactions w
         = Inr (map (base_row (get (msg_wallet_address w))) (dex_transactions w))"
  using rows_of_groups_unrecognized [OF assms [unfolded dex_transactions_def], of _ "[]"]
  by (simp add: preprocess_dex_transactions_def dex_transactions_def)

lemma with_action_base_rows:
  assumes "list_all unrecognized txs" "a \<in> {''swap'', ''deposit'', ''withdraw''}"
  shows "with_action a (map (base_row wa) txs) = []"
  using assms
  by (auto simp: with_action_def filter_empty_conv list_all_iff unrecognized_def base_row_def)

lemma nunique_pool_id_positive:
  assumes "list_ex (\<lambda>r. pool_id r \<noteq> None) df"
  shows "1 \<le> nunique_pool_id df"
proof -
  from assms obtain r where "r \<in> set df" "pool_id r \<noteq> None"
    by (auto simp: list_ex_iff)
  then have "List.map_filter pool_id df \<noteq> []"
    by (auto simp: List.map_filter_def filter_empty_conv)
  then have "remdups (List.map_filter pool_id df) \<noteq> []" by simp
  then show ?thesis
    unfolding nunique_pool_id_def by (cases "remdups (List.map_filter pool_id df)") simp_all
qed

lemma score_without_recognized_rows:
  assumes "df \<noteq> []"
    and "with_action ''swap'' df = []"
    and "with_action ''deposit'' df = []"
    and "with_action ''withdraw'' df = []"
    and "preprocess_dex_transactions w = Inr df"
  shows "\<exists>cf. process_wallet_complete now w
           = Inr (6 / 10 * (250 + min (real (nunique_pool_id df) * 20) 100), Complete cf, df)"
  using assms
  by (simp add: process_wallet_complete_def calculate_lp_features_def
        calculate_swap_features_def calculate_lp_score_def calculate_swap_score_def
        calculate_final_score_def calculate_holding_time_def Let_def)

text \<open>
  Claim C10, as amended. When the DEX-tagged groups of a message hold at least one
  transaction and every one of their transactions has an action that is none of swap,
  deposit and withdraw, \<open>process_wallet\<close> returns a success payload, and the final score is
  0.6 times the sum of the full retention component 250 and the pool-diversity component
  \<open>min (20 * unique_pools) 100\<close>: it is positive and at least 150. It is at least 162
  when some transaction has a \<^verbatim>\<open>poolId\<close> that is not \<^verbatim>\<open>null\<close> (a missing \<^verbatim>\<open>poolId\<close>
  defaults to the empty string and counts as a pool).
\<close>

theorem unrecognized_actions_score:
  assumes "dex_transactions w \<noteq> []" and "list_all unrecognized (dex_transactions w)"
  shows "\<exists>z cf df.
           process_wallet_complete (clock_holding c) w = Inr (z, Complete cf, df)
           \<and> process_wallet c w = (success_payload c w z cf df, None)
           \<and> z = 6 / 10 * (250 + min (real (nunique_pool_id df) * 20) 100)
           \<and> 0 < z \<and> 150 \<le> z
           \<and> (list_ex (\<lambda>tx. tx_poolId tx \<noteq> JNull) (dex_transactions w) \<longrightarrow> 162 \<le> z)"
proof -
  define df where "df = map (base_row (get (msg_wallet_address w))) (dex_transactions w)"
  define z where "z = 6 / 10 * (250 + min (real (nunique_pool_id df) * 20) 100)"
  have pre: "preprocess_dex_transactions w = Inr df"
    by (simp add: df_def preprocess_unrecognized [OF assms(2)])
  have ne: "df \<noteq> []" using assms(1) by (simp add: df_def)
  have "with_action ''swap'' df = []" "with_action ''deposit'' df = []"
       "with_action ''withdraw'' df = []"
    by (simp_all add: df_def with_action_base_rows [OF assms(2)])
  from score_without_recognized_rows [OF ne this pre, of "clock_holding c"]
  obtain cf where pwc: "process_wallet_complete (clock_holding c) w = Inr (z, Complete cf, df)"
    by (auto simp: z_def)
  have pw: "process_wallet c w = (success_payload c w z cf df, None)"
    by (simp add: process_wallet_def pwc)
  have lo: "150 \<le> z" by (simp add: z_def)
  have pool: "162 \<le> z" if "list_ex (\<lambda>tx. tx_poolId tx \<noteq> JNull) (dex_transactions w)"
  proof -
    from that obtain tx where tx: "tx \<in> set (dex_transactions w)" "tx_poolId tx \<noteq> JNull"
      by (auto simp: list_ex_iff)
    then have "pool_id (base_row (get (msg_wallet_address w)) tx) \<noteq> None"
      by (cases "tx_poolId tx") (simp_all add: base_row_def)
    with tx(1) have "list_ex (\<lambda>r. pool_id r \<noteq> None) df"
      by (auto simp: list_ex_iff df_def)
    then have "1 \<le> nunique_pool_id df" by (rule nunique_pool_id_positive)
    then have "20 \<le> real (nunique_pool_id df) * 20" by simp
    then show ?thesis by (simp add: z_def)
  qed
  have zeq: "z = 6 / 10 * (250 + min (real (nunique_pool_id df) * 20) 100)"
    by (simp only: z_def)
  have pos: "0 < z" using lo by simp
  from pwc pw zeq pos lo pool show ?thesis by blast
qed

theorem unrecognized_actions_score_witness:
  "dex_transactions transfer_message \<noteq> []
   \<and> list_all unrecognized (dex_transactions transfer_message)
   \<and> list_ex (\<lambda>tx. tx_poolId tx \<noteq> JNull) (dex_transactions transfer_message)
   \<and> success_populated (process_wallet sample_clock transfer_message)
   \<and> score_of (process_wallet_complete (clock_holding sample_clock) transfer_message)
       = Some 162"
proof -
  have h1: "dex_transactions transfer_message \<noteq> []" by code_simp
  have h2: "list_all unrecognized (dex_transactions transfer_message)" by code_simp
  have h3: "list_ex (\<lambda>tx. tx_poolId tx \<noteq> JNull) (dex_transactions transfer_message)"
    by code_simp
  have v: "score_of (process_wallet_complete (clock_holding sample_clock) transfer_message)
             = Some 162"
    by code_simp
  from unrecognized_actions_score [OF h1 h2, of sample_clock] h1 h2 h3 v
  show ?thesis
    by (auto simp: success_populated_def payload_nonempty)
qed

text \<open>
  Claim C10 as stated fails: a transaction with an unrecognized action whose \<^verbatim>\<open>poolId\<close>
  is \<^verbatim>\<open>null\<close> gives no pool to count, the pool-diversity component is 0, and the final
  score is 150, below 162.
\<close>

theorem null_pool_scores_150:
  "dex_transactions transfer_null_pool_message \<noteq> []
   \<and> list_all unrecognized (dex_transactions transfer_null_pool_message)
   \<and> success_populated (process_wallet sample_clock transfer_null_pool_message)
   \<and> score_of (process_wallet_complete (clock_holding sample_clock)
                  transfer_null_pool_message) = Some 150
   \<and> (150::real) < 162"
  by code_simp

subsection \<open>Ranges of the sub-scores\<close>

lemma lp_breakdown_eq:
  assumes "calculate_lp_score (Some f) = (t, Some b)"
  shows "lp_volume_score b = min (total_deposit_usd f / 10000 * 300) 300"
    and "lp_frequency_score b = min (real (num_deposits f) * 20) 200"
    and "lp_retention_score b = max 0 ((1 - withdraw_ratio f) * 250)"
    and "lp_holding_score b = min (avg_hold_time_days f / 30 * 150) 150"
    and "lp_diversity_score b = min (real (unique_pools f) * 20) 100"
    and "t = lp_volume_score b + lp_frequency_score b + lp_retention_score b
             + lp_holding_score b + lp_diversity_score b"
proof -
  from assms have b: "b = \<lparr>lp_volume_score = min (total_deposit_usd f / 10000 * 300) 300,
        lp_frequency_score = min (real (num_deposits f) * 20) 200,
        lp_retention_score = max 0 ((1 - withdraw_ratio f) * 250),
        lp_holding_score = min (avg_hold_time_days f / 30 * 150) 150,
        lp_diversity_score = min (real (unique_pools f) * 20) 100,
        total_lp_score = t\<rparr>"
    and t: "t = min (total_deposit_usd f / 10000 * 300) 300 + min (real (num_deposits f) * 20) 200
          + max 0 ((1 - withdraw_ratio f) * 250) + min (avg_hold_time_days f / 30 * 150) 150
          + min (real (unique_pools f) * 20) 100"
    by (auto simp: calculate_lp_score_def Let_def)
  show "lp_volume_score b = min (total_deposit_usd f / 10000 * 300) 300"
    and "lp_frequency_score b = min (real (num_deposits f) * 20) 200"
    and "lp_retention_score b = max 0 ((1 - withdraw_ratio f) * 250)"
    and "lp_holding_score b = min (avg_hold_time_days f / 30 * 150) 150"
    and "lp_diversity_score b = min (real (unique_pools f) * 20) 100"
    by (simp_all add: b)
  show "t = lp_volume_score b + lp_frequency_score b + lp_retention_score b
             + lp_holding_score b + lp_diversity_score b"
    using t by (simp add: b)
qed

lemma swap_breakdown_eq:
  assumes "calculate_swap_score (Some g) = (t, Some b)"
  shows "sw_volume_score b = min (total_swap_volume g / 50000 * 250) 250"
    and "sw_frequency_score b = min (real (num_swaps g) * 10) 200"
    and "sw_diversity_score b = real (token_diversity_score g)"
    and "sw_activity_score b = swap_frequency_score g"
    and "sw_pool_diversity_score b = min (real (unique_pools_swapped g) * 25) 100"
    and "t = sw_volume_score b + sw_frequency_score b + sw_diversity_score b
             + sw_activity_score b + sw_pool_diversity_score b"
proof -
  from assms have b: "b = \<lparr>sw_volume_score = min (total_swap_volume g / 50000 * 250) 250,
        sw_frequency_score = min (real (num_swaps g) * 10) 200,
        sw_diversity_score = real (token_diversity_score g),
        sw_activity_score = swap_frequency_score g,
        sw_pool_diversity_score = min (real (unique_pools_swapped g) * 25) 100,
        total_swap_score = t\<rparr>"
    and t: "t = min (total_swap_volume g / 50000 * 250) 250 + min (real (num_swaps g) * 10) 200
          + real (token_diversity_score g) + swap_frequency_score g
          + min (real (unique_pools_swapped g) * 25) 100"
    by (auto simp: calculate_swap_score_def Let_def)
  show "sw_volume_score b = min (total_swap_volume g / 50000 * 250) 250"
    and "sw_frequency_score b = min (real (num_swaps g) * 10) 200"
    and "sw_diversity_score b = real (token_diversity_score g)"
    and "sw_activity_score b = swap_frequency_score g"
    and "sw_pool_diversity_score b = min (real (unique_pools_swapped g) * 25) 100"
    by (simp_all add: b)
  show "t = sw_volume_score b + sw_frequency_score b + sw_diversity_score b
             + sw_activity_score b + sw_pool_diversity_score b"
    using t by (simp add: b)
qed

lemma lp_score_shape: "\<exists>t b. calculate_lp_score (Some f) = (t, Some b)"
  by (simp add: calculate_lp_score_def Let_def)

lemma swap_score_shape: "\<exists>t b. calculate_swap_score (Some g) = (t, Some b)"
  by (simp add: calculate_swap_score_def Let_def)

text \<open>
  Claim C4, as amended. For every feature set, each component that the scorers cap with
  \<open>min\<close> is at most its cap (LP volume 300, frequency 200, holding 150, diversity 100;
  swap volume 250, frequency 200, pool diversity 100), the components computed from
  counts are non-negative, and the retention component is non-negative. The remaining
  bounds hold for the features they depend on: the LP volume, the holding and the swap
  volume component are non-negative when the deposited total, the average holding time
  and the swap volume are; retention is at most 250 when the withdraw ratio is
  non-negative; the swap diversity and activity components, which the scorer copies from
  the features, are within 150 and within 0 to 100 when the features are.
\<close>

theorem sub_scores_capped:
  assumes "calculate_lp_score (Some f) = (lps, Some lb)"
    and "calculate_swap_score (Some g) = (sws, Some sb)"
  shows "lp_volume_score lb \<le> 300
         \<and> 0 \<le> lp_frequency_score lb \<and> lp_frequency_score lb \<le> 200
         \<and> 0 \<le> lp_retention_score lb
         \<and> lp_holding_score lb \<le> 150
         \<and> 0 \<le> lp_diversity_score lb \<and> lp_diversity_score lb \<le> 100
         \<and> sw_volume_score sb \<le> 250
         \<and> 0 \<le> sw_frequency_score sb \<and> sw_frequency_score sb \<le> 200
         \<and> 0 \<le> sw_diversity_score sb
         \<and> 0 \<le> sw_pool_diversity_score sb \<and> sw_pool_diversity_score sb \<le> 100
         \<and> (0 \<le> total_deposit_usd f \<longrightarrow> 0 \<le> lp_volume_score lb)
         \<and> (0 \<le> withdraw_ratio f \<longrightarrow> lp_retention_score lb \<le> 250)
         \<and> (0 \<le> avg_hold_time_days f \<longrightarrow> 0 \<le> lp_holding_score lb)
         \<and> (0 \<le> total_swap_volume g \<longrightarrow> 0 \<le> sw_volume_score sb)
         \<and> (token_diversity_score g \<le> 150 \<longrightarrow> sw_diversity_score sb \<le> 150)
         \<and> (0 \<le> swap_frequency_score g \<and> swap_frequency_score g \<le> 100 \<longrightarrow>
               0 \<le> sw_activity_score sb \<and> sw_activity_score sb \<le> 100)"
proof -
  note L = lp_breakdown_eq [OF assms(1)]
  note S = swap_breakdown_eq [OF assms(2)]
  have 1: "lp_volume_score lb \<le> 300" by (simp add: L(1))
  have 2: "0 \<le> lp_frequency_score lb \<and> lp_frequency_score lb \<le> 200" by (simp add: L(2))
  have 3: "0 \<le> lp_retention_score lb" by (simp add: L(3))
  have 4: "lp_holding_score lb \<le> 150" by (simp add: L(4))
  have 5: "0 \<le> lp_diversity_score lb \<and> lp_diversity_score lb \<le> 100" by (simp add: L(5))
  have 6: "sw_volume_score sb \<le> 250" by (simp add: S(1))
  have 7: "0 \<le> sw_frequency_score sb \<and> sw_frequency_score sb \<le> 200" by (simp add: S(2))
  have 8: "0 \<le> sw_diversity_score sb" by (simp add: S(3))
  have 9: "0 \<le> sw_pool_diversity_score sb \<and> sw_pool_diversity_score sb \<le> 100"
    by (simp add: S(5))
  have 10: "0 \<le> total_deposit_usd f \<longrightarrow> 0 \<le> lp_volume_score lb" by (simp add: L(1))
  have 11: "0 \<le> withdraw_ratio f \<longrightarrow> lp_retention_score lb \<le> 250" by (simp add: L(3))
  have 12: "0 \<le> avg_hold_time_days f \<longrightarrow> 0 \<le> lp_holding_score lb" by (simp add: L(4))
  have 13: "0 \<le> total_swap_volume g \<longrightarrow> 0 \<le> sw_volume_score sb" by (simp add: S(1))
  have 14: "token_diversity_score g \<le> 150 \<longrightarrow> sw_diversity_score sb \<le> 150"
    by (simp add: S(3))
  have 15: "0 \<le> swap_frequency_score g \<and> swap_frequency_score g \<le> 100 \<longrightarrow>
               0 \<le> sw_activity_score sb \<and> sw_activity_score sb \<le> 100"
    by (simp add: S(4))
  from 1 2 3 4 5 6 7 8 9 10 11 12 13 14 15 show ?thesis by blast
qed


theorem sub_scores_capped_witness:
  "calculate_lp_score (Some large_lp_features)
     = (1000 - 250 / 4,
        Some \<lparr>lp_volume_score = 300, lp_frequency_score = 200, lp_retention_score = 750 / 4,
              lp_holding_score = 150, lp_diversity_score = 100,
              total_lp_score = 1000 - 250 / 4\<rparr>)
   \<and> calculate_swap_score (Some large_swap_features)
     = (800,
        Some \<lparr>sw_volume_score = 250, sw_frequency_score = 200, sw_diversity_score = 150,
              sw_activity_score = 100, sw_pool_diversity_score = 100,
              total_swap_score = 800\<rparr>)
   \<and> 0 \<le> total_deposit_usd large_lp_features \<and> 0 \<le> withdraw_ratio large_lp_features
   \<and> 0 \<le> avg_hold_time_days large_lp_features
   \<and> 0 \<le> total_swap_volume large_swap_features
   \<and> token_diversity_score large_swap_features \<le> 150
   \<and> 0 \<le> swap_frequency_score large_swap_features
   \<and> swap_frequency_score large_swap_features \<le> 100
   \<and> (300::real) \<le> 300 \<and> (750 / 4 :: real) \<le> 250"
proof -
  have l: "calculate_lp_score (Some large_lp_features)
     = (1000 - 250 / 4,
        Some \<lparr>lp_volume_score = 300, lp_frequency_score = 200, lp_retention_score = 750 / 4,
              lp_holding_score = 150, lp_diversity_score = 100,
              total_lp_score = 1000 - 250 / 4\<rparr>)"
    by (simp add: calculate_lp_score_def large_lp_features_def Let_def)
  have s: "calculate_swap_score (Some large_swap_features)
     = (800,
        Some \<lparr>sw_volume_score = 250, sw_frequency_score = 200, sw_diversity_score = 150,
              sw_activity_score = 100, sw_pool_diversity_score = 100,
              total_swap_score = 800\<rparr>)"
    by (simp add: calculate_swap_score_def large_swap_features_def Let_def)
  have h: "0 \<le> total_deposit_usd large_lp_features \<and> 0 \<le> withdraw_ratio large_lp_features
   \<and> 0 \<le> avg_hold_time_days large_lp_features
   \<and> 0 \<le> total_swap_volume large_swap_features
   \<and> token_diversity_score large_swap_features \<le> 150
   \<and> 0 \<le> swap_frequency_score large_swap_features
   \<and> swap_frequency_score large_swap_features \<le> 100"
    by (simp add: large_lp_features_def large_swap_features_def)
  from sub_scores_capped [OF l s] l s h show ?thesis by simp
qed

text \<open>
  Claim C4 as stated fails: for a deposit dated one day after the clock reading, the
  average holding time is -1 day and the holding component that the pipeline reports
  is -5.
\<close>

theorem future_deposit_negative_holding_score:
  "map_option lp_holding_score (lp_breakdown_of 1703980900 next_day_deposit_message) = Some (- 5)
   \<and> (- 5 :: real) < 0"
  by code_simp

lemma lp_score_range:
  assumes "calculate_lp_score (Some f) = (t, b)"
    and "0 \<le> total_deposit_usd f" "0 \<le> withdraw_ratio f" "0 \<le> avg_hold_time_days f"
  shows "0 \<le> t \<and> t \<le> 1000"
proof -
  from assms(1) lp_score_shape [of f] obtain b' where e: "calculate_lp_score (Some f) = (t, Some b')"
    by auto
  note L = lp_breakdown_eq [OF e]
  have "0 \<le> lp_volume_score b' \<and> lp_volume_score b' \<le> 300" using assms(2) by (simp add: L(1))
  moreover have "0 \<le> lp_frequency_score b' \<and> lp_frequency_score b' \<le> 200" by (simp add: L(2))
  moreover have "0 \<le> lp_retention_score b' \<and> lp_retention_score b' \<le> 250"
    using assms(3) by (simp add: L(3))
  moreover have "0 \<le> lp_holding_score b' \<and> lp_holding_score b' \<le> 150"
    using assms(4) by (simp add: L(4))
  moreover have "0 \<le> lp_diversity_score b' \<and> lp_diversity_score b' \<le> 100" by (simp add: L(5))
  ultimately show ?thesis using L(6) by linarith
qed

lemma swap_score_range:
  assumes "calculate_swap_score (Some g) = (t, b)"
    and "0 \<le> total_swap_volume g" "token_diversity_score g \<le> 150"
    and "0 \<le> swap_frequency_score g" "swap_frequency_score g \<le> 100"
  shows "0 \<le> t \<and> t \<le> 900"
proof -
  from assms(1) swap_score_shape [of g] obtain b' where e: "calculate_swap_score (Some g) = (t, Some b')"
    by auto
  note S = swap_breakdown_eq [OF e]
  have "0 \<le> sw_volume_score b' \<and> sw_volume_score b' \<le> 250" using assms(2) by (simp add: S(1))
  moreover have "0 \<le> sw_frequency_score b' \<and> sw_frequency_score b' \<le> 200" by (simp add: S(2))
  moreover have "0 \<le> sw_diversity_score b' \<and> sw_diversity_score b' \<le> 150"
    using assms(3) by (simp add: S(3))
  moreover have "0 \<le> sw_activity_score b' \<and> sw_activity_score b' \<le> 100"
    using assms(4,5) by (simp add: S(4))
  moreover have "0 \<le> sw_pool_diversity_score b' \<and> sw_pool_diversity_score b' \<le> 100"
    by (simp add: S(5))
  ultimately show ?thesis using S(6) by linarith
qed

subsection \<open>Range of the final score\<close>

text \<open>
  Claim C2, as amended. When no amount of the normalized rows is negative and every
  deposit that has no later withdraw is dated at or before the clock reading, every
  final score that the pipeline computes lies between 0 and 1000.
\<close>

theorem final_score_in_range:
  assumes "amounts_nonneg (rows_of_message w)"
    and "open_deposits_not_after now (rows_of_message w)"
    and "score_of (process_wallet_complete now w) = Some z"
  shows "0 \<le> z \<and> z \<le> 1000"
proof -
  from assms(3) obtain df where pre: "preprocess_dex_transactions w = Inr df"
    by (cases "preprocess_dex_transactions w")
       (auto simp: process_wallet_complete_def score_of_def)
  then have rows: "rows_of_message w = df" by (simp add: rows_of_message_def)
  show ?thesis
  proof (cases "df = []")
    case True
    with assms(3) pre show ?thesis
      by (simp add: process_wallet_complete_def score_of_def)
  next
    case False
    from lp_features_shape [OF False, of now]
    obtain f where f: "calculate_lp_features now df = Inr (Some f)" by blast
    from swap_features_shape [OF False]
    obtain g where g: "calculate_swap_features df = Inr (Some g)" by blast
    obtain lps lb where l: "calculate_lp_score (Some f) = (lps, lb)" by force
    obtain sws sb where s: "calculate_swap_score (Some g) = (sws, sb)" by force
    from assms(3) have z: "z = lps * (6 / 10) + sws * (4 / 10)"
      by (simp add: process_wallet_complete_def score_of_def pre False f g l s
            calculate_final_score_def Let_def)
    note fr = lp_features_nonneg [OF f assms(1,2) [unfolded rows]]
    note gr = swap_features_range [OF g assms(1) [unfolded rows]]
    have lr: "0 \<le> lps \<and> lps \<le> 1000"
      using fr by (intro lp_score_range [OF l]) simp_all
    have sr: "0 \<le> sws \<and> sws \<le> 900"
      using gr by (intro swap_score_range [OF s]) simp_all
    from lr sr show ?thesis unfolding z by linarith
  qed
qed

theorem final_score_in_range_witness:
  "amounts_nonneg (rows_of_message sample_wallet_message)
   \<and> open_deposits_not_after 1762214400 (rows_of_message sample_wallet_message)
   \<and> score_of (process_wallet_complete 1762214400 sample_wallet_message) = Some (4577 / 32)
   \<and> (0::real) \<le> 4577 / 32 \<and> (4577 / 32 :: real) \<le> 1000"
proof -
  have h1: "amounts_nonneg (rows_of_message sample_wallet_message)" by code_simp
  have h2: "open_deposits_not_after 1762214400 (rows_of_message sample_wallet_message)" by code_simp
  have h3: "score_of (process_wallet_complete 1762214400 sample_wallet_message)
              = Some (4577 / 32)" by code_simp
  from final_score_in_range [OF h1 h2 h3] h1 h2 h3 show ?thesis by blast
qed

text \<open>
  Claim C2 as stated fails: a deposit dated after the clock reading has a negative
  holding time, the holding component has no lower bound, and the final score is
  negative. Here the deposit is dated 1519 days ahead: the LP score is
  \<open>30 + 20 + 250 - 7595 + 20\<close> and the final score is \<open>-4365\<close>.
\<close>

theorem future_deposit_negative_score:
  "score_of (process_wallet_complete 1762214400 future_deposit_message) = Some (- 4365)
   \<and> (- 4365 :: real) < 0"
  by code_simp

end
